theory Spec2Isabelle
  imports Main "HOL-Library.AList"
begin

section \<open>Values shared by the dispatch layer\<close>

text \<open>
  The development embeds the dispatch and correlation layer of the driver:
  \<^verbatim>\<open>lib/librets/connection/base.js\<close> (CallbackStore, NonExecutedOperationStore, DbStore,
  Base), \<^verbatim>\<open>lib/librets/commands/base_command.js\<close> (request ids) and the Db class (db.js).

  A JavaScript function used as a callback is identified by a number. Calling it is
  recorded as an effect with the arguments it received; the body of a callback belongs to
  the caller of the driver, so a call is taken to return normally and to leave the stores
  of the driver alone. Effects are listed in the order the source performs them.
\<close>

type_synonym handler = nat
type_synonym request_id = nat

datatype js_error =
    BufferLimitReached int
      \<comment> \<open>\<^verbatim>\<open>"No connection operations buffering limit of " + n + " reached"\<close>\<close>
  | NoOpenConnections
  | DriverIncompatible
  | UnsupportedAuthMechanism
      \<comment> \<open>\<^verbatim>\<open>"only BASIC, OAUTH or DIGEST is supported by authMechanism"\<close>\<close>
  | TypeError
      \<comment> \<open>raised by the language: property of null or undefined, call of a non-function\<close>
  | ListenerNotFunction
      \<comment> \<open>raised by EventEmitter.once for a listener that is not a function\<close>
  | SharedServer
      \<comment> \<open>\<^verbatim>\<open>"A Server instance cannot be shared across multiple Db instances"\<close>\<close>
  | BsonNotCompiled
      \<comment> \<open>\<^verbatim>\<open>"Native bson parser not compiled, please compile or avoid using native_parser=true"\<close>\<close>
  | OtherError string

record connection =
  conn_id :: nat
  conn_host :: string
  conn_port :: nat
  conn_isCompatible :: bool

text \<open>What a checkout or an \<^verbatim>\<open>options.connection\<close> can hold: null, an Error, a connection.\<close>

datatype conn_value = NoConn | ErrConn js_error | LiveConn connection

text \<open>A database handle is referred to by the pair the source compares: databaseName and tag.\<close>

type_synonym handle_ref = "string option \<times> nat"

datatype js_value =
    Undefined
  | Null
  | JBool bool
  | JErr js_error
  | JDoc nat
  | JConn connection
  | JDb handle_ref
  | JServer
      \<comment> \<open>the server configuration (the Base object) itself\<close>
  | JObj nat "handle_ref option"
      \<comment> \<open>any other object, with its \<^verbatim>\<open>db\<close> property when it has one\<close>

fun truthy :: "js_value \<Rightarrow> bool" where
  "truthy Undefined = False"
| "truthy Null = False"
| "truthy (JBool b) = b"
| "truthy _ = True"

text \<open>
  The write concern options \<^verbatim>\<open>w\<close>, \<^verbatim>\<open>j\<close> and \<^verbatim>\<open>wtimeout\<close>, typed as the Db class
  documents them: \<^verbatim>\<open>w\<close> a number or a string, \<^verbatim>\<open>j\<close> a boolean. \<^verbatim>\<open>None\<close> is a property
  that is null or undefined.
\<close>

datatype w_value = WNum int | WStr string

record write_options =
  opt_w :: "w_value option"
  opt_j :: "bool option"
  opt_wtimeout :: "int option"

record op_options = write_options +
  opt_raw :: "bool option"
  opt_connection :: conn_value

record command =
  cmd_body :: nat
  requestId :: "nat option"

datatype effect =
    Call handler "js_value list"
      \<comment> \<open>\<^verbatim>\<open>callback(args)\<close>\<close>
  | ExecuteQueryCommand handle_ref command op_options "handler option"
      \<comment> \<open>\<^verbatim>\<open>command.executeQueryCommand(db, db_command, options, callback)\<close>\<close>
  | ExecuteInsertCommand handle_ref command op_options "handler option"
      \<comment> \<open>\<^verbatim>\<open>command.executeInsertCommand(db, db_command, options, callback)\<close>\<close>
  | ConnectionWrite connection "command list"
      \<comment> \<open>\<^verbatim>\<open>connection.write(db_command, ...)\<close>\<close>
  | DbEmit handle_ref string js_value js_value
      \<comment> \<open>\<^verbatim>\<open>_dbs[i].emit(event, message, object)\<close>\<close>
  | NextTickThrow js_value
      \<comment> \<open>\<^verbatim>\<open>process.nextTick(function() { throw message; })\<close>\<close>
  | NextTickDbEmit handle_ref string js_value
      \<comment> \<open>\<^verbatim>\<open>process.nextTick(function() { object.db.emit(event, message, null); })\<close>\<close>

section \<open>NonExecutedOperationStore\<close>

text \<open>
  A buffered operation as \<^verbatim>\<open>Db.prototype._executeQueryCommand\<close> and
  \<^verbatim>\<open>_executeInsertCommand\<close> build it. \<^verbatim>\<open>op_callback\<close> is \<^verbatim>\<open>None\<close> when the
  \<^verbatim>\<open>callback\<close> property is not a function.
\<close>

datatype op_kind = Query | Insert

record buffered_op =
  op_type :: op_kind
  op_db_command :: command
  op_options :: op_options
  op_callback :: "handler option"
  op_db :: handle_ref

record commands =
  cmd_read :: "buffered_op list"
  cmd_write_reads :: "buffered_op list"
  cmd_write :: "buffered_op list"

definition empty_commands :: commands where
  "empty_commands = \<lparr>cmd_read = [], cmd_write_reads = [], cmd_write = []\<rparr>"

text \<open>
  \<^verbatim>\<open>fireCallbacksWithError\<close>: shift every command off the queue and call its callback,
  when it is a function, with the error. The result is the calls made and the queue left.
\<close>

fun fireCallbacksWithError :: "js_error \<Rightarrow> buffered_op list \<Rightarrow> effect list \<times> buffered_op list" where
  "fireCallbacksWithError error [] = ([], [])"
| "fireCallbacksWithError error (command # rest) =
     (let (fx, left) = fireCallbacksWithError error rest
      in ((case op_callback command of
             Some cb \<Rightarrow> [Call cb [JErr error]]
           | None \<Rightarrow> []) @ fx, left))"

definition count :: "commands \<Rightarrow> nat" where
  "count cs = length (cmd_read cs) + length (cmd_write_reads cs) + length (cmd_write cs)"

definition write_op :: "buffered_op \<Rightarrow> commands \<Rightarrow> commands" where
  "write_op operation cs = cs\<lparr>cmd_write := cmd_write cs @ [operation]\<rparr>"

definition read_from_writer :: "buffered_op \<Rightarrow> commands \<Rightarrow> commands" where
  "read_from_writer operation cs = cs\<lparr>cmd_write_reads := cmd_write_reads cs @ [operation]\<rparr>"

definition read_op :: "buffered_op \<Rightarrow> commands \<Rightarrow> commands" where
  "read_op operation cs = cs\<lparr>cmd_read := cmd_read cs @ [operation]\<rparr>"

text \<open>
  \<^verbatim>\<open>validateBufferLimit(numberToFailOn)\<close>. The limit is \<^verbatim>\<open>None\<close> for null or undefined.
  The result is the returned boolean, the callbacks fired and the store afterwards.
  The last statement of the source, \<^verbatim>\<open>return false\<close>, stands after the \<^verbatim>\<open>if\<close>, so it
  is reached whether or not the limit was passed.
\<close>

definition validateBufferLimit :: "int option \<Rightarrow> commands \<Rightarrow> bool \<times> effect list \<times> commands" where
  "validateBufferLimit numberToFailOn cs =
     (case numberToFailOn of
        None \<Rightarrow> (True, [], cs)
      | Some n \<Rightarrow>
          if n = - 1 then (True, [], cs)
          else
            let error = BufferLimitReached n
            in if n < int (count cs) then
                 let (fx1, r) = fireCallbacksWithError error (cmd_read cs);
                     (fx2, wr) = fireCallbacksWithError error (cmd_write_reads cs);
                     (fx3, w) = fireCallbacksWithError error (cmd_write cs)
                 in (False, fx1 @ fx2 @ fx3,
                     \<lparr>cmd_read = r, cmd_write_reads = wr, cmd_write = w\<rparr>)
               else (False, [], cs))"

text \<open>
  The two drains. The argument is what \<^verbatim>\<open>config.checkoutReader()\<close>, respectively
  \<^verbatim>\<open>config.checkoutWriter()\<close>, returned. Each command gets the connection stored in its
  options and is handed to its own \<^verbatim>\<open>executeQueryCommand\<close> or
  \<^verbatim>\<open>executeInsertCommand\<close>.
\<close>

definition with_connection :: "connection \<Rightarrow> buffered_op \<Rightarrow> op_options" where
  "with_connection c command = (op_options command)\<lparr>opt_connection := LiveConn c\<rparr>"

definition run_query :: "connection \<Rightarrow> buffered_op \<Rightarrow> effect" where
  "run_query c command =
     ExecuteQueryCommand (op_db command) (op_db_command command) (with_connection c command)
       (op_callback command)"

definition run_insert :: "connection \<Rightarrow> buffered_op \<Rightarrow> effect" where
  "run_insert c command =
     ExecuteInsertCommand (op_db command) (op_db_command command) (with_connection c command)
       (op_callback command)"

fun drain :: "(buffered_op \<Rightarrow> effect) \<Rightarrow> buffered_op list \<Rightarrow> effect list \<times> buffered_op list" where
  "drain run [] = ([], [])"
| "drain run (command # rest) =
     (let (fx, left) = drain run rest in (run command # fx, left))"

definition execute_queries :: "conn_value \<Rightarrow> commands \<Rightarrow> effect list \<times> commands" where
  "execute_queries checkout cs =
     (case checkout of
        LiveConn c \<Rightarrow>
          let (fx, r) = drain (run_query c) (cmd_read cs)
          in (fx, cs\<lparr>cmd_read := r\<rparr>)
      | _ \<Rightarrow> ([], cs))"

definition execute_writes :: "conn_value \<Rightarrow> commands \<Rightarrow> effect list \<times> commands" where
  "execute_writes checkout cs =
     (case checkout of
        LiveConn c \<Rightarrow>
          let (fx1, wr) = drain (run_query c) (cmd_write_reads cs);
              (fx2, w) = drain (run_insert c) (cmd_write cs)
          in (fx1 @ fx2, cs\<lparr>cmd_write_reads := wr, cmd_write := w\<rparr>)
      | _ \<Rightarrow> ([], cs))"

text \<open>A sequence of enqueue calls, as the dispatcher issues them while disconnected.\<close>

datatype enqueue = EnqRead buffered_op | EnqReadFromWriter buffered_op | EnqWrite buffered_op

fun enqueue_one :: "enqueue \<Rightarrow> commands \<Rightarrow> commands" where
  "enqueue_one (EnqRead operation) cs = read_op operation cs"
| "enqueue_one (EnqReadFromWriter operation) cs = read_from_writer operation cs"
| "enqueue_one (EnqWrite operation) cs = write_op operation cs"

fun enqueue_all :: "enqueue list \<Rightarrow> commands \<Rightarrow> commands" where
  "enqueue_all [] cs = cs"
| "enqueue_all (e # es) cs = enqueue_all es (enqueue_one e cs)"

fun reads_of :: "enqueue list \<Rightarrow> buffered_op list" where
  "reads_of [] = []"
| "reads_of (EnqRead operation # es) = operation # reads_of es"
| "reads_of (_ # es) = reads_of es"

fun write_reads_of :: "enqueue list \<Rightarrow> buffered_op list" where
  "write_reads_of [] = []"
| "write_reads_of (EnqReadFromWriter operation # es) = operation # write_reads_of es"
| "write_reads_of (_ # es) = write_reads_of es"

fun writes_of :: "enqueue list \<Rightarrow> buffered_op list" where
  "writes_of [] = []"
| "writes_of (EnqWrite operation # es) = operation # writes_of es"
| "writes_of (_ # es) = writes_of es"

section \<open>DbStore\<close>

text \<open>
  A database handle as the stores of \<^verbatim>\<open>base.js\<close> see it: the name and tag they compare,
  the listeners of its own event emitter, the \<^verbatim>\<open>openCalled\<close> flag (\<^verbatim>\<open>None\<close> when
  the property is undefined), its \<^verbatim>\<open>raw\<close> flag and the write concern of its options.
  A name is \<^verbatim>\<open>None\<close> when it is null or undefined; names are strings, so the comparison
  \<^verbatim>\<open>==\<close> of two names is equality.
\<close>

record db_handle =
  databaseName :: "string option"
  tag :: nat
  db_listeners :: "string \<Rightarrow> handler list"
  openCalled :: "bool option"
  db_raw :: bool
  db_options :: write_options

definition ref_of :: "db_handle \<Rightarrow> handle_ref" where
  "ref_of d = (databaseName d, tag d)"

definition DbStore_add :: "db_handle \<Rightarrow> db_handle list \<Rightarrow> db_handle list" where
  "DbStore_add db dbs =
     (let found = list_ex (\<lambda>d. databaseName db = databaseName d) dbs
      in if \<not> found then dbs @ [db] else dbs)"

fun DbStore_fetch :: "string option \<Rightarrow> db_handle list \<Rightarrow> db_handle option" where
  "DbStore_fetch name [] = None"
| "DbStore_fetch name (d # ds) =
     (if name = databaseName d then Some d else DbStore_fetch name ds)"

text \<open>
  The loop of \<^verbatim>\<open>DbStore.emit\<close>: the events emitted on the handles and the final value of
  \<^verbatim>\<open>emitted\<close>, which starts out false.
\<close>

definition is_nullish :: "js_value \<Rightarrow> bool" where
  "is_nullish v = (v = Null \<or> v = Undefined)"

definition passes_filter :: "db_handle option \<Rightarrow> db_handle \<Rightarrow> bool" where
  "passes_filter filterDb d =
     (case filterDb of
        None \<Rightarrow> True
      | Some f \<Rightarrow> databaseName f \<noteq> databaseName d \<or> tag f \<noteq> tag d)"

fun emit_loop ::
  "string \<Rightarrow> js_value \<Rightarrow> js_value \<Rightarrow> db_handle option \<Rightarrow> db_handle list \<Rightarrow> bool
    \<Rightarrow> effect list \<times> bool" where
  "emit_loop event message object filterDb [] emitted = ([], emitted)"
| "emit_loop event message object filterDb (d # ds) emitted =
     (if db_listeners d event \<noteq> [] \<and> passes_filter filterDb d then
        let (fx, emitted') = emit_loop event message object filterDb ds True
        in (DbEmit (ref_of d) event message (if is_nullish object then JDb (ref_of d) else object)
              # fx, emitted')
      else emit_loop event message object filterDb ds emitted)"

text \<open>
  The last statement of \<^verbatim>\<open>DbStore.emit\<close>, \<^verbatim>\<open>object.db.emit(event, message, null)\<close> on the
  next tick. A database handle as \<^verbatim>\<open>object\<close> has the method \<^verbatim>\<open>Db.prototype.db\<close> under
  that name, which has no \<^verbatim>\<open>emit\<close>.
\<close>

fun emit_on_object_db :: "js_value \<Rightarrow> string \<Rightarrow> js_value \<Rightarrow> effect list" where
  "emit_on_object_db (JObj n (Some r)) event message = [NextTickDbEmit r event message]"
| "emit_on_object_db (JDb r) event message = [NextTickThrow (JErr TypeError)]"
| "emit_on_object_db _ event message = []"

text \<open>
  \<^verbatim>\<open>DbStore.emit(event, message, object, reset, filterDb, rethrow_if_no_listeners)\<close>.
  The source tests \<^verbatim>\<open>!emitted && rethrow_if_no_listeners\<close> first, directly after
  \<^verbatim>\<open>var emitted = false\<close>, and returns from there; the loop over the handles comes after it.
\<close>

definition DbStore_emit ::
  "string \<Rightarrow> js_value \<Rightarrow> js_value \<Rightarrow> bool \<Rightarrow> db_handle option \<Rightarrow> bool \<Rightarrow> db_handle list
    \<Rightarrow> effect list" where
  "DbStore_emit event message object reset filterDb rethrow_if_no_listeners dbs =
     (let emitted = False
      in if \<not> emitted \<and> rethrow_if_no_listeners then [NextTickThrow message]
         else
           let (fx, emitted') = emit_loop event message object filterDb dbs emitted
           in fx @
              (if truthy message \<and> event = ''error'' \<and> \<not> emitted' \<and> rethrow_if_no_listeners
               then emit_on_object_db object event message
               else []))"

section \<open>CallbackStore and Base\<close>

text \<open>
  \<^verbatim>\<open>_notReplied\<close> is an object keyed by request id. It is kept as an association list;
  a property can hold \<^verbatim>\<open>undefined\<close> (\<^verbatim>\<open>None\<close>). \<^verbatim>\<open>Object.keys\<close> lists integer keys
  in ascending order. The listeners of the event emitter are the functions given to
  \<^verbatim>\<open>once\<close>, per request id, in the order they were added. The connection kept in the
  metadata is whatever was passed at registration: undefined, null or a connection.
\<close>

datatype stored_conn = ConnUndefined | ConnNull | Conn connection

record reply_info =
  info_start :: nat
  info_raw :: bool
  info_connection :: stored_conn
  info_exhaust :: bool

record callback_store =
  notReplied :: "(request_id \<times> reply_info option) list"
  events :: "request_id \<Rightarrow> handler list"

definition obj_get :: "(nat \<times> 'v option) list \<Rightarrow> nat \<Rightarrow> 'v option" where
  "obj_get obj k = (case map_of obj k of None \<Rightarrow> None | Some v \<Rightarrow> v)"

definition obj_keys :: "(nat \<times> 'v) list \<Rightarrow> nat list" where
  "obj_keys obj = sort (remdups (map fst obj))"

definition empty_store :: callback_store where
  "empty_store = \<lparr>notReplied = [], events = (\<lambda>_. [])\<rparr>"

definition listeners :: "callback_store \<Rightarrow> request_id \<Rightarrow> handler list" where
  "listeners cs ev = events cs ev"

definition once :: "request_id \<Rightarrow> handler option \<Rightarrow> callback_store \<Rightarrow> js_error + callback_store" where
  "once ev listener cs =
     (case listener of
        None \<Rightarrow> Inl ListenerNotFunction
      | Some l \<Rightarrow> Inr (cs\<lparr>events := (events cs)(ev := events cs ev @ [l])\<rparr>))"

definition removeAllListeners :: "request_id \<Rightarrow> callback_store \<Rightarrow> callback_store" where
  "removeAllListeners ev cs = cs\<lparr>events := (events cs)(ev := [])\<rparr>"

text \<open>
  \<^verbatim>\<open>emit\<close> calls every listener of the event with the arguments; a listener added with
  \<^verbatim>\<open>once\<close> is removed when it is called.
\<close>

definition emit :: "request_id \<Rightarrow> js_value list \<Rightarrow> callback_store \<Rightarrow> effect list \<times> callback_store" where
  "emit ev args cs = (map (\<lambda>l. Call l args) (events cs ev), cs\<lparr>events := (events cs)(ev := [])\<rparr>)"

record base =
  callBackStore :: callback_store
  commandsStore :: commands
  dbStore :: "db_handle list"

text \<open>
  \<^verbatim>\<open>Base.prototype._registerHandler(db_command, raw, connection, exhaust, callback)\<close>.
  The first argument of the model is the value of \<^verbatim>\<open>db_command.getRequestId()\<close>, the last
  but one the value of \<^verbatim>\<open>new Date().getTime()\<close>. The source evaluates the request id
  twice; both evaluations give the same id, since an assigned id is never 0 (the counter
  of \<^verbatim>\<open>base_command.js\<close> starts at 1). The fourth argument of the source is
  either the exhaust flag or, in a call with four arguments, the callback.
\<close>

datatype exhaust_arg = ExhaustFlag bool | ExhaustFn handler

definition registerHandler ::
  "request_id \<Rightarrow> bool \<Rightarrow> stored_conn \<Rightarrow> exhaust_arg \<Rightarrow> handler option \<Rightarrow> nat
    \<Rightarrow> callback_store \<Rightarrow> js_error + callback_store" where
  "registerHandler rid raw connection exhaust callback now cs =
     (let (callback', exhaust') =
            (case exhaust of
               ExhaustFn f \<Rightarrow> (Some f, False)
             | ExhaustFlag b \<Rightarrow> (callback, b))
      in case once rid callback' cs of
           Inl e \<Rightarrow> Inl e
         | Inr cs' \<Rightarrow>
             Inr (cs'\<lparr>notReplied :=
                    AList.update rid
                      (Some \<lparr>info_start = now, info_raw = raw, info_connection = connection,
                             info_exhaust = exhaust'\<rparr>)
                      (notReplied cs')\<rparr>))"

text \<open>\<^verbatim>\<open>_findHandler\<close>, \<^verbatim>\<open>_hasHandler\<close>, \<^verbatim>\<open>_removeHandler\<close> and \<^verbatim>\<open>_reRegisterHandler\<close>.\<close>

record found_handler =
  found_info :: "reply_info option"
  found_callback :: "handler option"

definition findHandler :: "request_id \<Rightarrow> callback_store \<Rightarrow> found_handler" where
  "findHandler rid cs =
     \<lparr>found_info = obj_get (notReplied cs) rid,
      found_callback = (case listeners cs rid of [] \<Rightarrow> None | l # _ \<Rightarrow> Some l)\<rparr>"

definition hasHandler :: "request_id \<Rightarrow> callback_store \<Rightarrow> bool" where
  "hasHandler rid cs = (length (listeners cs rid) \<ge> 1)"

definition removeHandler :: "request_id \<Rightarrow> callback_store \<Rightarrow> callback_store" where
  "removeHandler rid cs =
     removeAllListeners rid
       (if obj_get (notReplied cs) rid \<noteq> None
        then cs\<lparr>notReplied := AList.delete rid (notReplied cs)\<rparr>
        else cs)"

definition reRegisterHandler ::
  "request_id \<Rightarrow> found_handler \<Rightarrow> callback_store \<Rightarrow> js_error + callback_store" where
  "reRegisterHandler newId object cs =
     (case found_callback object of
        None \<Rightarrow> Inl TypeError
      | Some l \<Rightarrow>
          (case once newId (Some l) cs of
             Inl e \<Rightarrow> Inl e
           | Inr cs' \<Rightarrow>
               Inr (cs'\<lparr>notReplied := AList.update newId (found_info object) (notReplied cs')\<rparr>)))"

text \<open>
  \<^verbatim>\<open>Base.prototype._emitAcrossAllDbInstances(server, filterDb, event, message, object,
  resetConnection, rethrow_if_no_listeners)\<close>.
\<close>

definition reset_openCalled :: "db_handle \<Rightarrow> db_handle" where
  "reset_openCalled d = (if openCalled d \<noteq> None then d\<lparr>openCalled := Some False\<rparr> else d)"

definition emitAcrossAllDbInstances ::
  "db_handle option \<Rightarrow> string \<Rightarrow> js_value \<Rightarrow> js_value \<Rightarrow> bool \<Rightarrow> bool \<Rightarrow> base
    \<Rightarrow> effect list \<times> base" where
  "emitAcrossAllDbInstances filterDb event message object resetConnection rethrow_if_no_listeners b =
     (let dbs = (if resetConnection then map reset_openCalled (dbStore b) else dbStore b)
      in (DbStore_emit event message object resetConnection filterDb rethrow_if_no_listeners dbs,
          b\<lparr>dbStore := dbs\<rparr>))"

text \<open>
  \<^verbatim>\<open>Base.prototype._callHandler(id, document, err)\<close>. \<^verbatim>\<open>listeners(id)[0].listener\<close> is
  the function that was given to \<^verbatim>\<open>once\<close>: the event emitter keeps it in that property of
  the wrapper it installs. When the metadata of the id is undefined, reading
  \<^verbatim>\<open>info.connection\<close> raises inside the \<^verbatim>\<open>try\<close> before the callback is called, and the
  \<^verbatim>\<open>catch\<close> broadcasts the error with \<^verbatim>\<open>resetConnection\<close> and
  \<^verbatim>\<open>rethrow_if_no_listeners\<close> set. The same \<^verbatim>\<open>catch\<close> receives what the callback itself
  throws; its body is not part of the model.
\<close>

definition conn_arg :: "stored_conn \<Rightarrow> js_value" where
  "conn_arg c = (case c of ConnUndefined \<Rightarrow> Undefined | ConnNull \<Rightarrow> Null | Conn x \<Rightarrow> JConn x)"

definition callHandler :: "request_id \<Rightarrow> js_value \<Rightarrow> js_value \<Rightarrow> base \<Rightarrow> effect list \<times> base" where
  "callHandler rid document err b =
     (let cs = callBackStore b
      in case listeners cs rid of
           [] \<Rightarrow> ([], b)
         | callback # others \<Rightarrow>
             let info = obj_get (notReplied cs) rid;
                 cs1 = cs\<lparr>notReplied := AList.delete rid (notReplied cs)\<rparr>;
                 cs2 = removeAllListeners rid cs1;
                 b' = b\<lparr>callBackStore := cs2\<rparr>
             in (case info of
                   Some i \<Rightarrow> ([Call callback [err, document, conn_arg (info_connection i)]], b')
                 | None \<Rightarrow>
                     emitAcrossAllDbInstances None ''error'' (JErr TypeError) JServer True True b'))"

text \<open>
  \<^verbatim>\<open>Base.prototype.__executeAllServerSpecificErrorCallbacks(host, port, err)\<close>: the loop
  over \<^verbatim>\<open>Object.keys(this._callBackStore._notReplied)\<close>. The result is the calls made, the
  exception that ended the loop, if any, and the store. Reading \<^verbatim>\<open>info.connection\<close> of
  an undefined \<^verbatim>\<open>info\<close> raises.
\<close>

fun flush_keys ::
  "string \<Rightarrow> nat \<Rightarrow> js_value \<Rightarrow> request_id list \<Rightarrow> callback_store
    \<Rightarrow> effect list \<times> js_error option \<times> callback_store" where
  "flush_keys host port err [] cs = ([], None, cs)"
| "flush_keys host port err (k # ks) cs =
     (case obj_get (notReplied cs) k of
        None \<Rightarrow> ([], Some TypeError, cs)
      | Some info \<Rightarrow>
          (case info_connection info of
             Conn c \<Rightarrow>
               if conn_port c = port \<and> conn_host c = host then
                 let (fx, cs1) = emit k [err, Null] cs;
                     cs2 = cs1\<lparr>notReplied := AList.delete k (notReplied cs1)\<rparr>;
                     cs3 = cs2\<lparr>events := (events cs2)(k := [])\<rparr>;
                     (fx', exn, cs') = flush_keys host port err ks cs3
                 in (fx @ fx', exn, cs')
               else flush_keys host port err ks cs
           | _ \<Rightarrow> flush_keys host port err ks cs))"

definition executeAllServerSpecificErrorCallbacks ::
  "string \<Rightarrow> nat \<Rightarrow> js_value \<Rightarrow> callback_store \<Rightarrow> effect list \<times> js_error option \<times> callback_store" where
  "executeAllServerSpecificErrorCallbacks host port err cs =
     flush_keys host port err (obj_keys (notReplied cs)) cs"

text \<open>Whether the metadata stored under a key names the endpoint.\<close>

definition at_endpoint :: "string \<Rightarrow> nat \<Rightarrow> callback_store \<Rightarrow> request_id \<Rightarrow> bool" where
  "at_endpoint host port cs k =
     (case obj_get (notReplied cs) k of
        None \<Rightarrow> False
      | Some info \<Rightarrow>
          (case info_connection info of
             Conn c \<Rightarrow> conn_port c = port \<and> conn_host c = host
           | _ \<Rightarrow> False))"

text \<open>
  A sequence of calls on the registry, and the calls of handlers it leads to, each tagged
  with the request id that was completed.
\<close>

datatype registry_call =
    Register request_id bool stored_conn bool handler nat
  | Complete request_id js_value js_value

fun run_call :: "registry_call \<Rightarrow> base \<Rightarrow> (request_id \<times> effect) list \<times> base" where
  "run_call (Register rid raw connection exhaust callback now) b =
     (case registerHandler rid raw connection (ExhaustFlag exhaust) (Some callback) now
             (callBackStore b) of
        Inl e \<Rightarrow> ([], b)
      | Inr cs \<Rightarrow> ([], b\<lparr>callBackStore := cs\<rparr>))"
| "run_call (Complete rid document err) b =
     (let (fx, b') = callHandler rid document err b in (map (Pair rid) fx, b'))"

fun run_calls :: "registry_call list \<Rightarrow> base \<Rightarrow> (request_id \<times> effect) list \<times> base" where
  "run_calls [] b = ([], b)"
| "run_calls (c # cs) b =
     (let (fx, b') = run_call c b; (fx', b'') = run_calls cs b' in (fx @ fx', b''))"

fun is_call :: "effect \<Rightarrow> bool" where
  "is_call (Call h args) = True"
| "is_call _ = False"

definition invocations :: "request_id \<Rightarrow> (request_id \<times> effect) list \<Rightarrow> nat" where
  "invocations rid trace = length (filter (\<lambda>p. fst p = rid \<and> is_call (snd p)) trace)"

fun registers :: "request_id \<Rightarrow> registry_call \<Rightarrow> bool" where
  "registers rid (Register rid' raw connection exhaust callback now) = (rid' = rid)"
| "registers rid (Complete rid' document err) = False"

definition registrations :: "request_id \<Rightarrow> registry_call list \<Rightarrow> nat" where
  "registrations rid calls = length (filter (registers rid) calls)"

section \<open>Request ids\<close>

text \<open>
  \<^verbatim>\<open>BaseCommand.prototype.getRequestId\<close>, with the module's counter \<^verbatim>\<open>id\<close> passed in
  and out: the request id, the command and the counter afterwards. A \<^verbatim>\<open>requestId\<close> that
  is undefined or 0 counts as not yet assigned.
\<close>

definition getRequestId :: "command \<Rightarrow> nat \<Rightarrow> nat \<times> command \<times> nat" where
  "getRequestId c next_id =
     (case requestId c of
        None \<Rightarrow> (next_id, c\<lparr>requestId := Some next_id\<rparr>, next_id + 1)
      | Some r \<Rightarrow>
          if r = 0 then (next_id, c\<lparr>requestId := Some next_id\<rparr>, next_id + 1)
          else (r, c, next_id))"

definition updateRequestId :: "command \<Rightarrow> nat \<Rightarrow> nat \<times> command \<times> nat" where
  "updateRequestId c next_id = (next_id, c\<lparr>requestId := Some next_id\<rparr>, next_id + 1)"

section \<open>Db: write concern and write dispatch\<close>

record write_concern =
  wc_w :: "w_value option"
  wc_j :: "bool option"
  wc_wtimeout :: "int option"

definition setWriteConcernHash :: "'a write_options_scheme \<Rightarrow> write_concern" where
  "setWriteConcernHash options =
     \<lparr>wc_w = opt_w options,
      wc_j = (if opt_j options = Some True then opt_j options else None),
      wc_wtimeout = opt_wtimeout options\<rparr>"

definition getWriteConcern :: "db_handle \<Rightarrow> 'a write_options_scheme \<Rightarrow> write_concern" where
  "getWriteConcern self options =
     (if opt_w options \<noteq> None \<or> opt_j options \<noteq> None then setWriteConcernHash options
      else if opt_w (db_options self) \<noteq> None \<or> opt_j (db_options self) \<noteq> None
        then setWriteConcernHash (db_options self)
      else \<lparr>wc_w = Some (WNum 1), wc_j = None, wc_wtimeout = None\<rparr>)"

text \<open>
  The test \<^verbatim>\<open>errorOptions.w > 0 || errorOptions.w == 'majority' || errorOptions.j\<close> of
  \<^verbatim>\<open>__executeInsertCommand\<close>. For a string \<^verbatim>\<open>w\<close> the comparison \<^verbatim>\<open>w > 0\<close> converts the
  string to a number, by the rules of the language; \<^verbatim>\<open>string_gt_zero\<close> stands for that
  comparison.
\<close>

definition w_gt_zero :: "(string \<Rightarrow> bool) \<Rightarrow> w_value option \<Rightarrow> bool" where
  "w_gt_zero string_gt_zero w =
     (case w of
        None \<Rightarrow> False
      | Some (WNum n) \<Rightarrow> n > 0
      | Some (WStr s) \<Rightarrow> string_gt_zero s)"

definition requires_acknowledgement :: "(string \<Rightarrow> bool) \<Rightarrow> write_concern \<Rightarrow> bool" where
  "requires_acknowledgement string_gt_zero errorOptions =
     (w_gt_zero string_gt_zero (wc_w errorOptions)
      \<or> wc_w errorOptions = Some (WStr ''majority'')
      \<or> wc_j errorOptions = Some True)"

text \<open>
  \<^verbatim>\<open>__executeInsertCommand(self, db_command, options, callback)\<close>, up to and including
  \<^verbatim>\<open>connection.write\<close>. \<^verbatim>\<open>writer\<close> is what \<^verbatim>\<open>self.serverConfig.checkoutWriter()\<close>
  returned, \<^verbatim>\<open>lastError\<close> the command that \<^verbatim>\<open>DbCommand.createGetLastErrorCommand(self)\<close>
  builds, \<^verbatim>\<open>now\<close> the clock and \<^verbatim>\<open>next_id\<close> the counter of request ids. The result is the
  effects, the exception raised, if any, the counter and the callback store afterwards.
  Calling \<^verbatim>\<open>isCompatible\<close> on null or on an Error raises, as does calling a callback that
  is not a function.
\<close>

definition executeInsertCommand ::
  "(string \<Rightarrow> bool) \<Rightarrow> db_handle \<Rightarrow> conn_value \<Rightarrow> command \<Rightarrow> command \<Rightarrow> op_options
    \<Rightarrow> handler option \<Rightarrow> nat \<Rightarrow> nat \<Rightarrow> callback_store
    \<Rightarrow> effect list \<times> js_error option \<times> nat \<times> callback_store" where
  "executeInsertCommand string_gt_zero self writer lastError db_command options callback now next_id cs =
     (let raw = (case opt_raw options of Some r \<Rightarrow> r | None \<Rightarrow> db_raw self);
          connection = (case opt_connection options of NoConn \<Rightarrow> writer | specified \<Rightarrow> specified)
      in case connection of
           NoConn \<Rightarrow> ([], Some TypeError, next_id, cs)
         | ErrConn e \<Rightarrow> ([], Some TypeError, next_id, cs)
         | LiveConn c \<Rightarrow>
             if \<not> conn_isCompatible c then
               (case callback of
                  Some cb \<Rightarrow> ([Call cb [JErr DriverIncompatible, Null]], None, next_id, cs)
                | None \<Rightarrow> ([], Some TypeError, next_id, cs))
             else
               (case callback of
                  None \<Rightarrow> ([ConnectionWrite c [db_command]], None, next_id, cs)
                | Some cb \<Rightarrow>
                    let errorOptions = getWriteConcern self options
                    in if requires_acknowledgement string_gt_zero errorOptions then
                         let (rid, lastError', next_id') = getRequestId lastError next_id
                         in (case registerHandler rid raw (Conn c) (ExhaustFn cb) None now cs of
                               Inl e \<Rightarrow> ([], Some e, next_id', cs)
                             | Inr cs' \<Rightarrow>
                                 ([ConnectionWrite c [db_command, lastError']], None, next_id', cs'))
                       else ([ConnectionWrite c [db_command]], None, next_id, cs)))"

section \<open>Db: the constructor, handles by name, authentication\<close>

text \<open>
  The constructor \<^verbatim>\<open>function Db(serverConfig, options)\<close>. Its first argument is a server
  configuration, with its \<^verbatim>\<open>_used\<close> flag and its \<^verbatim>\<open>_dbStore\<close>, or whatever else a caller
  passes in that place: a string, null or undefined. The options are the properties the
  constructor reads that matter here; \<^verbatim>\<open>None\<close> as options is null or undefined.
  \<^verbatim>\<open>is_used\<close> is the value of \<^verbatim>\<open>serverConfig._isUsed && serverConfig._isUsed()\<close>,
  \<^verbatim>\<open>bson_loads\<close> says whether the \<^verbatim>\<open>try\<close> block that loads the bson library gets through,
  \<^verbatim>\<open>now\<close> is the clock. The constructor assigns no \<^verbatim>\<open>databaseName\<close>; the new handle has
  none. Where the first argument is not an object, the statements that go through
  \<^verbatim>\<open>this.serverConfig\<close> raise: setting \<^verbatim>\<open>_used\<close> or \<^verbatim>\<open>logger\<close> on null or undefined, and
  for a string, on which an assignment is ignored, the call of \<^verbatim>\<open>enableRecordQueryStats\<close>
  or, at the end, of \<^verbatim>\<open>_dbStore.add\<close>. On a server configuration the call of
  \<^verbatim>\<open>enableRecordQueryStats\<close> goes to the server's own class and is taken to return.
\<close>

record server_config =
  sc_used :: bool
  sc_dbStore :: "db_handle list"

datatype ctor_arg = ArgString string | ArgNull | ArgUndefined | ArgServer server_config

record ctor_options =
  co_override_used_flag :: "bool option"
  co_raw :: "bool option"
  co_recordQueryStats :: "bool option"
  co_write :: write_options

definition no_options :: ctor_options where
  "no_options =
     \<lparr>co_override_used_flag = None, co_raw = None, co_recordQueryStats = None,
      co_write = \<lparr>opt_w = None, opt_j = None, opt_wtimeout = None\<rparr>\<rparr>"

definition Db_new ::
  "ctor_arg \<Rightarrow> ctor_options option \<Rightarrow> bool \<Rightarrow> bool \<Rightarrow> nat \<Rightarrow> js_error + (db_handle \<times> server_config)" where
  "Db_new serverConfig options is_used bson_loads now =
     (let opts = (case options of None \<Rightarrow> no_options | Some given \<Rightarrow> given);
          overrideUsedFlag = (case co_override_used_flag opts of None \<Rightarrow> False | Some f \<Rightarrow> f);
          self = \<lparr>databaseName = None, tag = now, db_listeners = (\<lambda>event. []),
                  openCalled = Some False,
                  db_raw = (case co_raw opts of None \<Rightarrow> False | Some r \<Rightarrow> r),
                  db_options = co_write opts\<rparr>
      in case serverConfig of
           ArgServer sc \<Rightarrow>
             if \<not> overrideUsedFlag \<and> is_used then Inl SharedServer
             else if \<not> bson_loads then Inl BsonNotCompiled
             else Inr (self,
                       sc\<lparr>sc_used := (if overrideUsedFlag then sc_used sc else True),
                          sc_dbStore := DbStore_add self (sc_dbStore sc)\<rparr>)
         | ArgNull \<Rightarrow>
             if \<not> overrideUsedFlag then Inl TypeError
             else if \<not> bson_loads then Inl BsonNotCompiled
             else Inl TypeError
         | ArgUndefined \<Rightarrow>
             if \<not> bson_loads then Inl BsonNotCompiled else Inl TypeError
         | ArgString s \<Rightarrow>
             if \<not> bson_loads then Inl BsonNotCompiled else Inl TypeError)"

text \<open>
  \<^verbatim>\<open>Db.prototype.db(dbName)\<close>: the handle fetched from the store of the server when there
  is one, otherwise the result of \<^verbatim>\<open>new Db(dbName, this.serverConfig, options)\<close>. That call
  gives the constructor the name as its \<^verbatim>\<open>serverConfig\<close> and the server configuration as
  its \<^verbatim>\<open>options\<close>; the copied options, third in the call, are not received by it.
  \<^verbatim>\<open>server_as_options\<close> is what the option properties give when read off the server
  configuration. A name has no \<^verbatim>\<open>_isUsed\<close>. The result is the handle and the server
  configuration, or the exception raised.
\<close>

datatype db_name = DbName string | DbNameNull | DbNameUndefined

fun name_value :: "db_name \<Rightarrow> string option" where
  "name_value (DbName s) = Some s"
| "name_value DbNameNull = None"
| "name_value DbNameUndefined = None"

fun name_arg :: "db_name \<Rightarrow> ctor_arg" where
  "name_arg (DbName s) = ArgString s"
| "name_arg DbNameNull = ArgNull"
| "name_arg DbNameUndefined = ArgUndefined"

definition Db_db ::
  "db_name \<Rightarrow> ctor_options \<Rightarrow> bool \<Rightarrow> nat \<Rightarrow> server_config
    \<Rightarrow> js_error + (db_handle \<times> server_config)" where
  "Db_db dbName server_as_options bson_loads now sc =
     (case DbStore_fetch (name_value dbName) (sc_dbStore sc) of
        Some db \<Rightarrow> Inr (db, sc)
      | None \<Rightarrow> Db_new (name_arg dbName) (Some server_as_options) False bson_loads now)"

text \<open>
  \<^verbatim>\<open>Db.prototype.authenticate(username, password, options, callback)\<close>. The third argument
  is the callback itself, an options object with its \<^verbatim>\<open>authMechanism\<close> (\<^verbatim>\<open>None\<close> when
  the property is null or undefined), or null or undefined. The result is the effects and
  the exception raised, if any.
\<close>

datatype auth_options = AuthOptionsFn handler | AuthOptions "string option" | AuthOptionsNullish

definition call_callback :: "handler option \<Rightarrow> js_value list \<Rightarrow> effect list \<times> js_error option" where
  "call_callback callback args =
     (case callback of
        Some cb \<Rightarrow> ([Call cb args], None)
      | None \<Rightarrow> ([], Some TypeError))"

definition authenticate ::
  "string \<Rightarrow> string \<Rightarrow> auth_options \<Rightarrow> handler option \<Rightarrow> effect list \<times> js_error option" where
  "authenticate username password options callback =
     (case options of
        AuthOptionsNullish \<Rightarrow> ([], Some TypeError)
      | AuthOptionsFn f \<Rightarrow> call_callback (Some f) [Null, JBool True]
      | AuthOptions authMechanism \<Rightarrow>
          if authMechanism = None \<or> authMechanism = Some '''' then
            call_callback callback [Null, JBool True]
          else if authMechanism \<noteq> Some ''BASIC''
               \<and> authMechanism \<noteq> Some ''OAUTH''
               \<and> authMechanism \<noteq> Some ''DIGEST'' then
            call_callback callback [JErr UnsupportedAuthMechanism]
          else call_callback callback [Null, JBool True])"

text \<open>An effect that sends a command or hands one to a dispatch function.\<close>

fun is_dispatch :: "effect \<Rightarrow> bool" where
  "is_dispatch (ExecuteQueryCommand d c opts cb) = True"
| "is_dispatch (ExecuteInsertCommand d c opts cb) = True"
| "is_dispatch (ConnectionWrite c cmds) = True"
| "is_dispatch _ = False"

section \<open>Example values\<close>

definition example_connection :: connection where
  "example_connection =
     \<lparr>conn_id = 1, conn_host = ''rets.example.org'', conn_port = 6103, conn_isCompatible = True\<rparr>"

definition other_connection :: connection where
  "other_connection =
     \<lparr>conn_id = 2, conn_host = ''rets.example.org'', conn_port = 6104, conn_isCompatible = True\<rparr>"

definition example_options :: op_options where
  "example_options =
     \<lparr>opt_w = None, opt_j = None, opt_wtimeout = None, opt_raw = None, opt_connection = NoConn\<rparr>"

definition example_op :: "op_kind \<Rightarrow> nat \<Rightarrow> buffered_op" where
  "example_op kind n =
     \<lparr>op_type = kind, op_db_command = \<lparr>cmd_body = n, requestId = None\<rparr>,
      op_options = example_options, op_callback = Some n, op_db = (None, 0)\<rparr>"

definition example_db :: db_handle where
  "example_db =
     \<lparr>databaseName = Some ''listings'', tag = 1,
      db_listeners = (\<lambda>event. if event = ''error'' then [9] else []),
      openCalled = Some True, db_raw = False,
      db_options = \<lparr>opt_w = None, opt_j = None, opt_wtimeout = None\<rparr>\<rparr>"

definition base_of :: "callback_store \<Rightarrow> db_handle list \<Rightarrow> base" where
  "base_of cs dbs = \<lparr>callBackStore = cs, commandsStore = empty_commands, dbStore = dbs\<rparr>"

text \<open>The store after one registration of request 7, without and with the exhaust flag.\<close>

definition registered_once :: callback_store where
  "registered_once =
     (case registerHandler 7 False (Conn example_connection) (ExhaustFlag False) (Some 1) 100
             empty_store of
        Inr cs \<Rightarrow> cs
      | Inl e \<Rightarrow> empty_store)"

definition registered_exhaust :: callback_store where
  "registered_exhaust =
     (case registerHandler 7 False (Conn example_connection) (ExhaustFlag True) (Some 1) 100
             empty_store of
        Inr cs \<Rightarrow> cs
      | Inl e \<Rightarrow> empty_store)"

text \<open>Three pending requests: two on different endpoints, one with no connection stored.\<close>

definition three_pending :: callback_store where
  "three_pending =
     \<lparr>notReplied =
        [(7, Some \<lparr>info_start = 100, info_raw = False,
                   info_connection = Conn example_connection, info_exhaust = False\<rparr>),
         (8, Some \<lparr>info_start = 101, info_raw = False,
                   info_connection = Conn other_connection, info_exhaust = False\<rparr>),
         (9, Some \<lparr>info_start = 102, info_raw = False,
                   info_connection = ConnNull, info_exhaust = False\<rparr>)],
      events = (\<lambda>k. if k = 7 then [1] else if k = 8 then [2] else if k = 9 then [3] else [])\<rparr>"

text \<open>A write command that already has its request id, and a fresh getLastError command.\<close>

definition write_command :: command where
  "write_command = \<lparr>cmd_body = 5, requestId = Some 41\<rparr>"

definition lastError_command :: command where
  "lastError_command = \<lparr>cmd_body = 6, requestId = None\<rparr>"

text \<open>
  A server configuration before and after \<^verbatim>\<open>new Db(server, null)\<close> at time 100, and the
  handle that call builds.
\<close>

definition fresh_server :: server_config where
  "fresh_server = \<lparr>sc_used = False, sc_dbStore = []\<rparr>"

definition first_handle :: db_handle where
  "first_handle =
     \<lparr>databaseName = None, tag = 100, db_listeners = (\<lambda>event. []), openCalled = Some False,
      db_raw = False, db_options = \<lparr>opt_w = None, opt_j = None, opt_wtimeout = None\<rparr>\<rparr>"

definition opened_server :: server_config where
  "opened_server = \<lparr>sc_used = True, sc_dbStore = [first_handle]\<rparr>"

text \<open>How many registered handlers of a request id are still to be completed: one or none.\<close>

definition pending :: "request_id \<Rightarrow> base \<Rightarrow> nat" where
  "pending rid b = (if hasHandler rid (callBackStore b) then 1 else 0)"

section \<open>Properties of the operation buffer\<close>

lemma fireCallbacksWithError_empties: "snd (fireCallbacksWithError error q) = []"
  by (induction q) (auto split: prod.splits)

lemma fireCallbacksWithError_calls:
  "fst (fireCallbacksWithError error q) =
     concat (map (\<lambda>c. case op_callback c of Some cb \<Rightarrow> [Call cb [JErr error]] | None \<Rightarrow> []) q)"
  by (induction q) (auto split: prod.splits option.splits)

lemma drain_effects: "fst (drain run q) = map run q"
  by (induction q) (auto split: prod.splits)

lemma drain_empties: "snd (drain run q) = []"
  by (induction q) (auto split: prod.splits)

lemma drain_eq: "drain run q = (map run q, [])"
  by (simp add: prod_eq_iff drain_effects drain_empties)

lemma enqueue_all_read: "cmd_read (enqueue_all es cs) = cmd_read cs @ reads_of es"
proof (induction es arbitrary: cs)
  case Nil
  then show ?case by simp
next
  case (Cons e es)
  then show ?case
    by (cases e) (simp_all add: read_op_def read_from_writer_def write_op_def)
qed

lemma enqueue_all_write_reads:
  "cmd_write_reads (enqueue_all es cs) = cmd_write_reads cs @ write_reads_of es"
proof (induction es arbitrary: cs)
  case Nil
  then show ?case by simp
next
  case (Cons e es)
  then show ?case
    by (cases e) (simp_all add: read_op_def read_from_writer_def write_op_def)
qed

lemma enqueue_all_write: "cmd_write (enqueue_all es cs) = cmd_write cs @ writes_of es"
proof (induction es arbitrary: cs)
  case Nil
  then show ?case by simp
next
  case (Cons e es)
  then show ?case
    by (cases e) (simp_all add: read_op_def read_from_writer_def write_op_def)
qed

text \<open>
  C1. With a limit configured, \<^verbatim>\<open>validateBufferLimit\<close> is to report success exactly when
  the count of the three queues does not exceed the limit. At a limit of 5 and one buffered
  write, the source returns false, fires no callback and leaves the store as it was: the
  \<^verbatim>\<open>return false\<close> after the \<^verbatim>\<open>if\<close> is reached although the limit was not passed.
\<close>

theorem validateBufferLimit_false_within_limit:
  "validateBufferLimit (Some 5) (write_op (example_op Insert 1) empty_commands)
     = (False, [], write_op (example_op Insert 1) empty_commands)"
  by (simp add: validateBufferLimit_def count_def write_op_def empty_commands_def)

text \<open>
  What \<^verbatim>\<open>validateBufferLimit\<close> does on every input: it reports success only for the
  unlimited sentinel, and past the limit it fails every callback of the three queues, in
  the order read, write_reads, write, and leaves the queues empty.
\<close>

lemma validateBufferLimit_result:
  "fst (validateBufferLimit numberToFailOn cs) \<longleftrightarrow> numberToFailOn = None \<or> numberToFailOn = Some (- 1)"
  by (auto simp: validateBufferLimit_def Let_def split: option.splits prod.splits)

lemma fireCallbacksWithError_eq:
  "fireCallbacksWithError error q =
     (concat (map (\<lambda>c. case op_callback c of Some cb \<Rightarrow> [Call cb [JErr error]] | None \<Rightarrow> []) q), [])"
  by (simp add: prod_eq_iff fireCallbacksWithError_calls fireCallbacksWithError_empties)

lemma validateBufferLimit_purges:
  assumes "n \<noteq> - 1" and "n < int (count cs)"
  shows "validateBufferLimit (Some n) cs =
     (False,
      fst (fireCallbacksWithError (BufferLimitReached n) (cmd_read cs))
        @ fst (fireCallbacksWithError (BufferLimitReached n) (cmd_write_reads cs))
        @ fst (fireCallbacksWithError (BufferLimitReached n) (cmd_write cs)),
      \<lparr>cmd_read = [], cmd_write_reads = [], cmd_write = []\<rparr>)"
  using assms by (simp add: validateBufferLimit_def Let_def fireCallbacksWithError_eq)

text \<open>
  X1. Past a configured limit, \<^verbatim>\<open>validateBufferLimit\<close> reports failure, calls the callback
  of every buffered operation that has one with the limit error, reads first, then
  reads routed to the writer, then writes, and leaves the three queues empty.
\<close>

theorem buffer_purged_when_limit_exceeded:
  assumes "n \<noteq> - 1" and "n < int (count cs)"
  shows "validateBufferLimit (Some n) cs =
     (False,
      concat (map (\<lambda>c. case op_callback c of
                          Some cb \<Rightarrow> [Call cb [JErr (BufferLimitReached n)]]
                        | None \<Rightarrow> [])
        (cmd_read cs @ cmd_write_reads cs @ cmd_write cs)),
      empty_commands)"
  using validateBufferLimit_purges [OF assms]
  by (simp add: fireCallbacksWithError_calls empty_commands_def)

theorem buffer_purged_when_limit_exceeded_witness:
  "validateBufferLimit (Some 2)
     (enqueue_all [EnqReadFromWriter (example_op Query 1), EnqReadFromWriter (example_op Query 2),
                   EnqReadFromWriter (example_op Query 3)] empty_commands)
   = (False,
      [Call 1 [JErr (BufferLimitReached 2)], Call 2 [JErr (BufferLimitReached 2)],
       Call 3 [JErr (BufferLimitReached 2)]],
      empty_commands)"
proof -
  have n: "(2::int) \<noteq> - 1" by simp
  have c: "2 < int (count (enqueue_all [EnqReadFromWriter (example_op Query 1),
      EnqReadFromWriter (example_op Query 2), EnqReadFromWriter (example_op Query 3)] empty_commands))"
    by (simp add: count_def read_from_writer_def empty_commands_def)
  show ?thesis
    using buffer_purged_when_limit_exceeded [OF n c]
    by (simp add: read_from_writer_def empty_commands_def example_op_def)
qed

text \<open>
  X2. \<^verbatim>\<open>validateBufferLimit\<close> reports success exactly for the unlimited sentinel, a limit
  that is null, undefined or -1.
\<close>

theorem buffer_check_succeeds_only_when_unlimited:
  "fst (validateBufferLimit numberToFailOn cs)
     \<longleftrightarrow> numberToFailOn = None \<or> numberToFailOn = Some (- 1)"
  by (rule validateBufferLimit_result)

text \<open>
  C6. Whatever was enqueued, a drain hands the commands of a queue to their dispatch
  functions in the order they were enqueued. \<^verbatim>\<open>execute_queries\<close> drains the reads;
  \<^verbatim>\<open>execute_writes\<close> drains the reads routed to the writer and then the writes; every
  command dispatched by \<^verbatim>\<open>execute_writes\<close> carries the one connection that was checked
  out, and the drained queues are empty afterwards.
\<close>

theorem drains_dispatch_in_enqueue_order:
  "execute_queries (LiveConn c) (enqueue_all es cs) =
     (map (run_query c) (cmd_read cs @ reads_of es),
      (enqueue_all es cs)\<lparr>cmd_read := []\<rparr>)
   \<and> execute_writes (LiveConn c) (enqueue_all es cs) =
     (map (run_query c) (cmd_write_reads cs @ write_reads_of es)
        @ map (run_insert c) (cmd_write cs @ writes_of es),
      (enqueue_all es cs)\<lparr>cmd_write_reads := [], cmd_write := []\<rparr>)
   \<and> (\<forall>e \<in> set (fst (execute_writes (LiveConn c) (enqueue_all es cs))).
        case e of
          ExecuteQueryCommand d cmd opts cb \<Rightarrow> opt_connection opts = LiveConn c
        | ExecuteInsertCommand d cmd opts cb \<Rightarrow> opt_connection opts = LiveConn c
        | _ \<Rightarrow> False)"
  by (auto simp: execute_queries_def execute_writes_def drain_eq enqueue_all_read
      enqueue_all_write_reads enqueue_all_write run_query_def run_insert_def with_connection_def)

theorem drains_dispatch_in_enqueue_order_witness:
  "fst (execute_writes (LiveConn example_connection)
      (enqueue_all [EnqWrite (example_op Insert 1), EnqReadFromWriter (example_op Query 2),
                    EnqWrite (example_op Insert 3), EnqReadFromWriter (example_op Query 4)]
         empty_commands))
   = [run_query example_connection (example_op Query 2),
      run_query example_connection (example_op Query 4),
      run_insert example_connection (example_op Insert 1),
      run_insert example_connection (example_op Insert 3)]"
  using drains_dispatch_in_enqueue_order [of example_connection
      "[EnqWrite (example_op Insert 1), EnqReadFromWriter (example_op Query 2),
        EnqWrite (example_op Insert 3), EnqReadFromWriter (example_op Query 4)]" empty_commands]
  by (simp add: empty_commands_def)

section \<open>Properties of the callback store\<close>

lemma obj_get_update_same: "obj_get (AList.update k v obj) k = v"
  by (simp add: obj_get_def update_conv')

lemma obj_get_update_other: "k' \<noteq> k \<Longrightarrow> obj_get (AList.update k v obj) k' = obj_get obj k'"
  by (simp add: obj_get_def update_conv')

lemma obj_get_delete_same: "obj_get (AList.delete k obj) k = None"
  by (simp add: obj_get_def delete_conv')

lemma obj_get_delete_other: "k' \<noteq> k \<Longrightarrow> obj_get (AList.delete k obj) k' = obj_get obj k'"
  by (simp add: obj_get_def)

lemma set_obj_keys: "set (obj_keys obj) = fst ` set obj"
  by (simp add: obj_keys_def)

lemma distinct_obj_keys: "distinct (obj_keys obj)"
  by (simp add: obj_keys_def)

lemma obj_keys_update: "set (obj_keys (AList.update k v obj)) = insert k (set (obj_keys obj))"
  by (simp add: set_obj_keys dom_update)

lemma obj_keys_delete: "set (obj_keys (AList.delete k obj)) = set (obj_keys obj) - {k}"
  by (auto simp: set_obj_keys AList.delete_eq)

lemma obj_get_Some_key: "obj_get obj k = Some v \<Longrightarrow> k \<in> set (obj_keys obj)"
  by (auto simp: obj_get_def set_obj_keys split: option.splits dest: map_of_SomeD intro: rev_image_eqI)

lemma registerHandler_fn:
  "registerHandler rid raw connection (ExhaustFlag exhaust) (Some callback) now cs =
     Inr (cs\<lparr>events := (events cs)(rid := events cs rid @ [callback]),
            notReplied := AList.update rid
              (Some \<lparr>info_start = now, info_raw = raw, info_connection = connection,
                     info_exhaust = exhaust\<rparr>) (notReplied cs)\<rparr>)"
  by (simp add: registerHandler_def once_def)

lemma emit_rethrow:
  "DbStore_emit event message object reset filterDb True dbs = [NextTickThrow message]"
  by (simp add: DbStore_emit_def)

lemma callHandler_unknown:
  "\<not> hasHandler rid (callBackStore b) \<Longrightarrow> callHandler rid document err b = ([], b)"
  by (auto simp: callHandler_def hasHandler_def Let_def split: list.splits)

lemma callHandler_store:
  "callBackStore (snd (callHandler rid document err b)) =
     (if hasHandler rid (callBackStore b)
      then (callBackStore b)\<lparr>notReplied := AList.delete rid (notReplied (callBackStore b)),
             events := (events (callBackStore b))(rid := [])\<rparr>
      else callBackStore b)"
  by (auto simp: callHandler_def hasHandler_def Let_def removeAllListeners_def listeners_def
      emitAcrossAllDbInstances_def split: list.splits option.splits)

lemma callHandler_calls:
  "length (filter is_call (fst (callHandler rid document err b))) \<le> 1"
  by (auto simp: callHandler_def Let_def emitAcrossAllDbInstances_def emit_rethrow
      split: list.splits option.splits)

lemma callHandler_effect:
  "listeners (callBackStore b) rid = callback # others \<Longrightarrow>
   obj_get (notReplied (callBackStore b)) rid = Some i \<Longrightarrow>
   fst (callHandler rid document err b) = [Call callback [err, document, conn_arg (info_connection i)]]"
  by (auto simp: callHandler_def Let_def split: list.splits option.splits)

lemma invocations_append: "invocations rid (xs @ ys) = invocations rid xs + invocations rid ys"
  by (simp add: invocations_def)

lemma invocations_tagged:
  "invocations rid (map (Pair rid') fx) = (if rid' = rid then length (filter is_call fx) else 0)"
  by (induction fx) (auto simp: invocations_def)

lemma run_call_step:
  "invocations rid (fst (run_call c b)) + pending rid (snd (run_call c b))
     \<le> pending rid b + (if registers rid c then 1 else 0)"
proof (cases c)
  case (Register rid' raw connection exhaust callback now)
  then show ?thesis
    by (auto simp: registerHandler_fn pending_def hasHandler_def listeners_def invocations_def)
next
  case (Complete rid' document err)
  show ?thesis
  proof (cases "rid' = rid")
    case True
    have "pending rid (snd (callHandler rid document err b)) = 0"
      by (simp add: pending_def callHandler_store) (simp add: hasHandler_def listeners_def)
    moreover have "length (filter is_call (fst (callHandler rid document err b))) \<le> pending rid b"
      using callHandler_calls[of rid document err b] callHandler_unknown[of rid b document err]
      by (auto simp: pending_def)
    ultimately show ?thesis
      using Complete True by (auto simp: invocations_tagged split: prod.splits)
  next
    case False
    have "pending rid (snd (callHandler rid' document err b)) = pending rid b"
      using False by (simp add: pending_def callHandler_store) (simp add: hasHandler_def listeners_def)
    then show ?thesis
      using Complete False by (auto simp: invocations_tagged split: prod.splits)
  qed
qed

lemma run_calls_bound:
  "invocations rid (fst (run_calls calls b)) + pending rid (snd (run_calls calls b))
     \<le> pending rid b + registrations rid calls"
proof (induction calls arbitrary: b)
  case Nil
  then show ?case by (simp add: invocations_def registrations_def)
next
  case (Cons c calls)
  obtain fx b' where c: "run_call c b = (fx, b')" by (cases "run_call c b")
  obtain fx' b'' where r: "run_calls calls b' = (fx', b'')" by (cases "run_calls calls b'")
  have 1: "invocations rid fx + pending rid b' \<le> pending rid b + (if registers rid c then 1 else 0)"
    using run_call_step[of rid c b] c by simp
  have 2: "invocations rid fx' + pending rid b'' \<le> pending rid b' + registrations rid calls"
    using Cons.IH[of b'] r by simp
  have "registrations rid (c # calls) = (if registers rid c then 1 else 0) + registrations rid calls"
    by (simp add: registrations_def)
  then show ?case
    using 1 2 c r by (simp add: invocations_append)
qed

lemma registered_once_eq:
  "registered_once =
     \<lparr>notReplied = [(7, Some \<lparr>info_start = 100, info_raw = False,
         info_connection = Conn example_connection, info_exhaust = False\<rparr>)],
      events = (\<lambda>_. [])(7 := [1])\<rparr>"
  by (simp add: registered_once_def registerHandler_fn empty_store_def)

lemma registered_exhaust_eq:
  "registered_exhaust =
     \<lparr>notReplied = [(7, Some \<lparr>info_start = 100, info_raw = False,
         info_connection = Conn example_connection, info_exhaust = True\<rparr>)],
      events = (\<lambda>_. [])(7 := [1])\<rparr>"
  by (simp add: registered_exhaust_def registerHandler_fn empty_store_def)

text \<open>
  C2 (as amended). \<^verbatim>\<open>_registerHandler\<close> has no check for a request id that is already
  registered. A second registration of the same id, with a function as callback, succeeds:
  the new handler is added behind the listeners already installed for the id, the stored
  metadata is replaced by the new metadata, and no other id is touched.
\<close>

theorem second_register_adds_listener:
  assumes "hasHandler rid cs"
  shows "\<exists>cs'. registerHandler rid raw connection (ExhaustFlag exhaust) (Some callback) now cs = Inr cs'
    \<and> listeners cs' rid = listeners cs rid @ [callback]
    \<and> length (listeners cs' rid) \<ge> 2
    \<and> obj_get (notReplied cs') rid =
         Some \<lparr>info_start = now, info_raw = raw, info_connection = connection,
               info_exhaust = exhaust\<rparr>
    \<and> (\<forall>k. k \<noteq> rid \<longrightarrow>
          listeners cs' k = listeners cs k \<and> obj_get (notReplied cs') k = obj_get (notReplied cs) k)"
  using assms
  by (auto simp: registerHandler_fn listeners_def hasHandler_def obj_get_update_same
      obj_get_update_other)

theorem second_register_adds_listener_witness:
  "hasHandler 7 registered_once
   \<and> (\<exists>cs'. registerHandler 7 True ConnNull (ExhaustFlag False) (Some 2) 200 registered_once = Inr cs'
        \<and> listeners cs' 7 = [1, 2])"
  using second_register_adds_listener [of 7 registered_once True ConnNull False 2 200]
  by (auto simp: registered_once_eq hasHandler_def listeners_def)

text \<open>
  C2, as stated, fails: request 7 is registered, and registering it again raises nothing,
  leaves two listeners under the id and overwrites the metadata.
\<close>

theorem second_register_succeeds_counterexample:
  "hasHandler 7 registered_once
   \<and> \<not> isl (registerHandler 7 True ConnNull (ExhaustFlag False) (Some 2) 200 registered_once)
   \<and> listeners (projr (registerHandler 7 True ConnNull (ExhaustFlag False) (Some 2) 200 registered_once)) 7
       = [1, 2]
   \<and> obj_get (notReplied (projr (registerHandler 7 True ConnNull (ExhaustFlag False) (Some 2) 200
        registered_once))) 7
       = Some \<lparr>info_start = 200, info_raw = True, info_connection = ConnNull, info_exhaust = False\<rparr>"
  by (simp add: registered_once_eq registerHandler_fn hasHandler_def listeners_def obj_get_def)

text \<open>
  C3. Over every sequence of register and complete calls, from every state, the handlers
  called through a request id are at most as many as the registrations of that id, plus
  one when the id was registered at the start: each registration is completed at most once.
  One complete calls at most one handler. Completing an id with no handler changes nothing
  and raises nothing; completing a registered id removes its listeners and its metadata.
\<close>

theorem handler_invoked_at_most_once_per_registration:
  "invocations rid (fst (run_calls calls b)) \<le> pending rid b + registrations rid calls
   \<and> length (filter is_call (fst (callHandler rid document err b))) \<le> 1
   \<and> (\<not> hasHandler rid (callBackStore b) \<longrightarrow> callHandler rid document err b = ([], b))
   \<and> (hasHandler rid (callBackStore b) \<longrightarrow>
        \<not> hasHandler rid (callBackStore (snd (callHandler rid document err b)))
        \<and> obj_get (notReplied (callBackStore (snd (callHandler rid document err b)))) rid = None
        \<and> rid \<notin> set (obj_keys (notReplied (callBackStore (snd (callHandler rid document err b))))))"
proof -
  have "invocations rid (fst (run_calls calls b)) \<le> pending rid b + registrations rid calls"
    using run_calls_bound [of rid calls b] by simp
  moreover have "length (filter is_call (fst (callHandler rid document err b))) \<le> 1"
    by (rule callHandler_calls)
  moreover have "\<not> hasHandler rid (callBackStore b) \<longrightarrow> callHandler rid document err b = ([], b)"
    by (simp add: callHandler_unknown)
  moreover have "hasHandler rid (callBackStore b) \<longrightarrow>
        \<not> hasHandler rid (callBackStore (snd (callHandler rid document err b)))
        \<and> obj_get (notReplied (callBackStore (snd (callHandler rid document err b)))) rid = None
        \<and> rid \<notin> set (obj_keys (notReplied (callBackStore (snd (callHandler rid document err b)))))"
    by (simp add: callHandler_store hasHandler_def listeners_def obj_get_delete_same obj_keys_delete)
  ultimately show ?thesis by blast
qed

theorem handler_invoked_at_most_once_per_registration_witness:
  "invocations 7
     (fst (run_calls
        [Register 7 False (Conn example_connection) False 1 100,
         Complete 7 (JDoc 1) Null, Complete 7 (JDoc 2) Null, Complete 8 (JDoc 3) Null]
        (base_of empty_store []))) \<le> 1
   \<and> hasHandler 7 (callBackStore (base_of registered_once []))
   \<and> \<not> hasHandler 7 (callBackStore (snd (callHandler 7 (JDoc 1) Null (base_of registered_once []))))
   \<and> \<not> hasHandler 8 (callBackStore (base_of registered_once []))
   \<and> callHandler 8 (JDoc 3) Null (base_of registered_once []) = ([], base_of registered_once [])"
  using handler_invoked_at_most_once_per_registration [of 7
       "[Register 7 False (Conn example_connection) False 1 100,
         Complete 7 (JDoc 1) Null, Complete 7 (JDoc 2) Null, Complete 8 (JDoc 3) Null]"
       "base_of empty_store []" "JDoc 1" Null]
     handler_invoked_at_most_once_per_registration [of 7 "[]" "base_of registered_once []" "JDoc 1" Null]
     handler_invoked_at_most_once_per_registration [of 8 "[]" "base_of registered_once []" "JDoc 3" Null]
  by (simp add: pending_def registrations_def base_of_def empty_store_def registered_once_eq
      hasHandler_def listeners_def)


text \<open>
  C7 (as amended). \<^verbatim>\<open>_callHandler\<close> never reads the exhaust flag. Completing a registered
  request whose flag is set calls its first listener once and removes the listeners and
  the metadata of the id, as for any other request. The handler stays reachable only
  through \<^verbatim>\<open>_reRegisterHandler\<close>: applied, before the complete, to what \<^verbatim>\<open>_findHandler\<close>
  returns for the id, it installs the same handler and the same metadata under the new id.
\<close>

theorem complete_removes_exhaust_entry:
  assumes "listeners (callBackStore b) rid = callback # others"
    and "obj_get (notReplied (callBackStore b)) rid = Some i"
    and "info_exhaust i"
  shows "fst (callHandler rid document err b)
           = [Call callback [err, document, conn_arg (info_connection i)]]
    \<and> \<not> hasHandler rid (callBackStore (snd (callHandler rid document err b)))
    \<and> obj_get (notReplied (callBackStore (snd (callHandler rid document err b)))) rid = None
    \<and> rid \<notin> set (obj_keys (notReplied (callBackStore (snd (callHandler rid document err b)))))
    \<and> (\<exists>cs'. reRegisterHandler newId (findHandler rid (callBackStore b)) (callBackStore b) = Inr cs'
          \<and> listeners cs' newId = listeners (callBackStore b) newId @ [callback]
          \<and> obj_get (notReplied cs') newId = Some i)"
proof -
  from assms(1) have has: "hasHandler rid (callBackStore b)"
    by (simp add: hasHandler_def)
  have 1: "fst (callHandler rid document err b)
           = [Call callback [err, document, conn_arg (info_connection i)]]"
    using assms(1,2) by (rule callHandler_effect)
  have 2: "\<not> hasHandler rid (callBackStore (snd (callHandler rid document err b)))
    \<and> obj_get (notReplied (callBackStore (snd (callHandler rid document err b)))) rid = None
    \<and> rid \<notin> set (obj_keys (notReplied (callBackStore (snd (callHandler rid document err b)))))"
    using has
    by (simp add: callHandler_store hasHandler_def listeners_def obj_get_delete_same obj_keys_delete)
  have 3: "\<exists>cs'. reRegisterHandler newId (findHandler rid (callBackStore b)) (callBackStore b) = Inr cs'
          \<and> listeners cs' newId = listeners (callBackStore b) newId @ [callback]
          \<and> obj_get (notReplied cs') newId = Some i"
    using assms(1,2)
    by (simp add: reRegisterHandler_def findHandler_def once_def listeners_def obj_get_update_same)
  from 1 2 3 show ?thesis by blast
qed

theorem complete_removes_exhaust_entry_witness:
  "listeners registered_exhaust 7 = [1]
   \<and> fst (callHandler 7 (JDoc 1) Null (base_of registered_exhaust []))
        = [Call 1 [Null, JDoc 1, JConn example_connection]]
   \<and> \<not> hasHandler 7 (callBackStore (snd (callHandler 7 (JDoc 1) Null (base_of registered_exhaust []))))
   \<and> (\<exists>cs'. reRegisterHandler 8 (findHandler 7 registered_exhaust) registered_exhaust = Inr cs'
         \<and> listeners cs' 8 = [1])"
proof -
  have l: "listeners (callBackStore (base_of registered_exhaust [])) 7 = 1 # []"
    by (simp add: base_of_def registered_exhaust_eq listeners_def)
  have i: "obj_get (notReplied (callBackStore (base_of registered_exhaust []))) 7
      = Some \<lparr>info_start = 100, info_raw = False,
         info_connection = Conn example_connection, info_exhaust = True\<rparr>"
    by (simp add: base_of_def registered_exhaust_eq obj_get_def)
  have e: "info_exhaust \<lparr>info_start = 100, info_raw = False,
         info_connection = Conn example_connection, info_exhaust = True\<rparr>"
    by simp
  have c: "listeners registered_exhaust 7 = [1]" "listeners registered_exhaust 8 = []"
    by (simp_all add: registered_exhaust_eq listeners_def)
  show ?thesis
    using complete_removes_exhaust_entry [OF l i e, of "JDoc 1" Null 8] c
    by (auto simp: base_of_def conn_arg_def)
qed

text \<open>
  C7, as stated, fails: request 7 is registered with the exhaust flag set, and a normal
  complete leaves neither a listener nor metadata under the id.
\<close>

theorem complete_removes_exhaust_entry_counterexample:
  "obj_get (notReplied registered_exhaust) 7
     = Some \<lparr>info_start = 100, info_raw = False,
         info_connection = Conn example_connection, info_exhaust = True\<rparr>
   \<and> hasHandler 7 registered_exhaust
   \<and> \<not> hasHandler 7 (callBackStore (snd (callHandler 7 (JDoc 1) Null (base_of registered_exhaust []))))
   \<and> obj_get (notReplied (callBackStore (snd (callHandler 7 (JDoc 1) Null
        (base_of registered_exhaust [])))))  7 = None"
  by (simp add: callHandler_store base_of_def)
     (simp add: registered_exhaust_eq hasHandler_def listeners_def obj_get_def)


lemma at_endpoint_delete_other:
  "k' \<noteq> k \<Longrightarrow>
   at_endpoint host port (cs\<lparr>notReplied := AList.delete k (notReplied cs), events := ev\<rparr>) k'
     = at_endpoint host port cs k'"
  by (simp add: at_endpoint_def obj_get_delete_other)

lemma flush_keys_skip:
  "\<not> at_endpoint host port cs k \<Longrightarrow> obj_get (notReplied cs) k \<noteq> None \<Longrightarrow>
   flush_keys host port err (k # ks) cs = flush_keys host port err ks cs"
  by (auto simp: at_endpoint_def split: option.splits stored_conn.splits)

lemma flush_keys_match:
  "at_endpoint host port cs k \<Longrightarrow>
   flush_keys host port err (k # ks) cs =
     (let (fx', exn, cs') = flush_keys host port err ks
            (cs\<lparr>notReplied := AList.delete k (notReplied cs), events := (events cs)(k := [])\<rparr>)
      in (map (\<lambda>l. Call l [err, Null]) (events cs k) @ fx', exn, cs'))"
  by (auto simp: at_endpoint_def emit_def split: option.splits stored_conn.splits)

lemma flush_keys_spec:
  assumes "distinct ks" and "\<forall>k\<in>set ks. obj_get (notReplied cs) k \<noteq> None"
  shows "flush_keys host port err ks cs =
     (concat (map (\<lambda>k. map (\<lambda>l. Call l [err, Null]) (events cs k))
        (filter (at_endpoint host port cs) ks)),
      None,
      cs\<lparr>notReplied :=
           filter (\<lambda>p. \<not> (fst p \<in> set ks \<and> at_endpoint host port cs (fst p))) (notReplied cs),
         events := (\<lambda>k. if k \<in> set ks \<and> at_endpoint host port cs k then [] else events cs k)\<rparr>)"
  using assms
proof (induction ks arbitrary: cs)
  case Nil
  then show ?case by simp
next
  case (Cons k ks)
  from Cons.prems have dist: "distinct ks" and notin: "k \<notin> set ks"
    and defined_k: "obj_get (notReplied cs) k \<noteq> None"
    and defined: "\<forall>k'\<in>set ks. obj_get (notReplied cs) k' \<noteq> None"
    by auto
  define A where "A = filter (\<lambda>p. \<not> (fst p \<in> set (k # ks) \<and> at_endpoint host port cs (fst p))) (notReplied cs)"
  define B where "B = (\<lambda>k'. if k' \<in> set (k # ks) \<and> at_endpoint host port cs k' then [] else events cs k')"
  show ?case
  proof (cases "at_endpoint host port cs k")
    case False
    have "filter (\<lambda>p. \<not> (fst p \<in> set ks \<and> at_endpoint host port cs (fst p))) (notReplied cs) = A"
      unfolding A_def using False by (intro filter_cong) auto
    moreover have "(\<lambda>k'. if k' \<in> set ks \<and> at_endpoint host port cs k' then [] else events cs k') = B"
      unfolding B_def using False by auto
    moreover have "filter (at_endpoint host port cs) (k # ks) = filter (at_endpoint host port cs) ks"
      using False by simp
    ultimately show ?thesis
      unfolding A_def [symmetric] B_def [symmetric]
      using flush_keys_skip [OF False defined_k, of err ks] Cons.IH [OF dist defined]
      by simp
  next
    case True
    define cs3 where "cs3 = cs\<lparr>notReplied := AList.delete k (notReplied cs), events := (events cs)(k := [])\<rparr>"
    define A3 where "A3 = filter (\<lambda>p. \<not> (fst p \<in> set ks \<and> at_endpoint host port cs3 (fst p))) (notReplied cs3)"
    define B3 where "B3 = (\<lambda>k'. if k' \<in> set ks \<and> at_endpoint host port cs3 k' then [] else events cs3 k')"
    have same_ks: "at_endpoint host port cs3 k' = at_endpoint host port cs k'" if "k' \<in> set ks" for k'
    proof -
      from that notin have "k' \<noteq> k" by auto
      then show ?thesis unfolding cs3_def by (rule at_endpoint_delete_other)
    qed
    have defined3: "\<forall>k'\<in>set ks. obj_get (notReplied cs3) k' \<noteq> None"
    proof
      fix k' assume k': "k' \<in> set ks"
      then have "k' \<noteq> k" using notin by auto
      then have "obj_get (notReplied cs3) k' = obj_get (notReplied cs) k'"
        by (simp add: cs3_def obj_get_delete_other)
      then show "obj_get (notReplied cs3) k' \<noteq> None"
        using defined k' by simp
    qed
    have ih: "flush_keys host port err ks cs3 =
       (concat (map (\<lambda>k. map (\<lambda>l. Call l [err, Null]) (events cs3 k))
          (filter (at_endpoint host port cs3) ks)), None, cs3\<lparr>notReplied := A3, events := B3\<rparr>)"
      unfolding A3_def B3_def by (rule Cons.IH [OF dist defined3])
    have f1: "filter (at_endpoint host port cs3) ks = filter (at_endpoint host port cs) ks"
      by (intro filter_cong) (simp_all add: same_ks)
    have f2: "map (\<lambda>k. map (\<lambda>l. Call l [err, Null]) (events cs3 k)) (filter (at_endpoint host port cs) ks)
        = map (\<lambda>k. map (\<lambda>l. Call l [err, Null]) (events cs k)) (filter (at_endpoint host port cs) ks)"
      using notin by (intro map_cong) (auto simp: cs3_def)
    have f3: "A3 = A"
    proof -
      have "A3 = filter (\<lambda>p. fst p \<noteq> k \<and> \<not> (fst p \<in> set ks \<and> at_endpoint host port cs3 (fst p))) (notReplied cs)"
        unfolding A3_def
        by (auto simp: cs3_def AList.delete_eq case_prod_unfold intro: filter_cong)
      also have "\<dots> = A"
        unfolding A_def
      proof (intro filter_cong refl)
        fix p assume "p \<in> set (notReplied cs)"
        show "(fst p \<noteq> k \<and> \<not> (fst p \<in> set ks \<and> at_endpoint host port cs3 (fst p)))
            = (\<not> (fst p \<in> set (k # ks) \<and> at_endpoint host port cs (fst p)))"
          using True same_ks [of "fst p"] by (cases "fst p = k") auto
      qed
      finally show ?thesis .
    qed
    have f4: "B3 = B"
      unfolding B3_def B_def
    proof
      fix k'
      show "(if k' \<in> set ks \<and> at_endpoint host port cs3 k' then [] else events cs3 k')
          = (if k' \<in> set (k # ks) \<and> at_endpoint host port cs k' then [] else events cs k')"
        using True same_ks [of k'] notin by (cases "k' = k") (auto simp: cs3_def)
    qed
    have state: "cs3\<lparr>notReplied := A3, events := B3\<rparr> = cs\<lparr>notReplied := A, events := B\<rparr>"
      by (simp add: f3 f4 cs3_def)
    have "flush_keys host port err (k # ks) cs =
        (map (\<lambda>l. Call l [err, Null]) (events cs k)
           @ concat (map (\<lambda>k. map (\<lambda>l. Call l [err, Null]) (events cs k))
               (filter (at_endpoint host port cs) ks)),
         None, cs\<lparr>notReplied := A, events := B\<rparr>)"
      using flush_keys_match [OF True, of err ks]
      unfolding cs3_def [symmetric] ih f1 f2 state by simp
    then show ?thesis
      unfolding A_def [symmetric] B_def [symmetric] using True by simp
  qed
qed


lemma obj_get_filter_keys:
  "obj_get (filter (\<lambda>p. Q (fst p)) obj) k = (if Q k then obj_get obj k else None)"
  by (induction obj) (auto simp: obj_get_def)

lemma obj_keys_filter_keys:
  "set (obj_keys (filter (\<lambda>p. Q (fst p)) obj)) = {k \<in> set (obj_keys obj). Q k}"
  by (auto simp: set_obj_keys)

lemma at_endpoint_key: "at_endpoint host port cs k \<Longrightarrow> k \<in> set (obj_keys (notReplied cs))"
  by (auto simp: at_endpoint_def split: option.splits stored_conn.splits dest: obj_get_Some_key)

lemma executeAllServerSpecificErrorCallbacks_spec:
  assumes "\<forall>k\<in>set (obj_keys (notReplied cs)). obj_get (notReplied cs) k \<noteq> None"
  shows "executeAllServerSpecificErrorCallbacks host port err cs =
     (concat (map (\<lambda>k. map (\<lambda>l. Call l [err, Null]) (listeners cs k))
        (filter (at_endpoint host port cs) (obj_keys (notReplied cs)))),
      None,
      cs\<lparr>notReplied := filter (\<lambda>p. \<not> at_endpoint host port cs (fst p)) (notReplied cs),
         events := (\<lambda>k. if at_endpoint host port cs k then [] else events cs k)\<rparr>)"
proof -
  have 1: "filter (\<lambda>p. \<not> (fst p \<in> set (obj_keys (notReplied cs)) \<and> at_endpoint host port cs (fst p)))
            (notReplied cs)
         = filter (\<lambda>p. \<not> at_endpoint host port cs (fst p)) (notReplied cs)"
    by (intro filter_cong) (auto dest: at_endpoint_key)
  have 2: "(\<lambda>k. if k \<in> set (obj_keys (notReplied cs)) \<and> at_endpoint host port cs k then []
                else events cs k)
         = (\<lambda>k. if at_endpoint host port cs k then [] else events cs k)"
    by (auto simp: fun_eq_iff dest: at_endpoint_key)
  show ?thesis
    unfolding executeAllServerSpecificErrorCallbacks_def listeners_def
      flush_keys_spec [OF distinct_obj_keys assms] 1 2 ..
qed

lemma empty_store_metadata:
  "\<forall>k\<in>set (obj_keys (notReplied empty_store)). obj_get (notReplied empty_store) k \<noteq> None"
  by (simp add: empty_store_def obj_keys_def)

lemma registerHandler_metadata:
  assumes "\<forall>k\<in>set (obj_keys (notReplied cs)). obj_get (notReplied cs) k \<noteq> None"
    and "registerHandler rid raw connection exhaust callback now cs = Inr cs'"
  shows "\<forall>k\<in>set (obj_keys (notReplied cs')). obj_get (notReplied cs') k \<noteq> None"
proof
  fix k assume k: "k \<in> set (obj_keys (notReplied cs'))"
  from assms(2) obtain i where cs': "notReplied cs' = AList.update rid (Some i) (notReplied cs)"
    by (auto simp: registerHandler_def once_def Let_def split: exhaust_arg.splits option.splits)
  show "obj_get (notReplied cs') k \<noteq> None"
  proof (cases "k = rid")
    case True
    then show ?thesis by (simp add: cs' obj_get_update_same)
  next
    case False
    with k have "k \<in> set (obj_keys (notReplied cs))"
      by (simp add: cs' obj_keys_update)
    with assms(1) False show ?thesis
      by (simp add: cs' obj_get_update_other)
  qed
qed

lemma callHandler_metadata:
  assumes "\<forall>k\<in>set (obj_keys (notReplied (callBackStore b))). obj_get (notReplied (callBackStore b)) k \<noteq> None"
  shows "\<forall>k\<in>set (obj_keys (notReplied (callBackStore (snd (callHandler rid document err b))))).
           obj_get (notReplied (callBackStore (snd (callHandler rid document err b)))) k \<noteq> None"
  using assms
  by (auto simp: callHandler_store obj_keys_delete obj_get_delete_other)

text \<open>
  C8. On a store where every pending key has its metadata, the flush for an endpoint ends
  without an exception; it calls, with the error and null, the listeners of exactly the
  keys whose stored connection has that host and port, in key order, and removes their
  metadata and listeners; every other key, whether it is stored with another endpoint or
  with no connection, keeps its metadata and its listeners.
\<close>

theorem endpoint_flush_completes_only_matching:
  assumes "\<forall>k\<in>set (obj_keys (notReplied cs)). obj_get (notReplied cs) k \<noteq> None"
  shows "case executeAllServerSpecificErrorCallbacks host port err cs of
     (fx, exn, cs') \<Rightarrow>
       exn = None
       \<and> fx = concat (map (\<lambda>k. map (\<lambda>l. Call l [err, Null]) (listeners cs k))
                (filter (at_endpoint host port cs) (obj_keys (notReplied cs))))
       \<and> (\<forall>k. at_endpoint host port cs k \<longrightarrow>
             obj_get (notReplied cs') k = None
             \<and> k \<notin> set (obj_keys (notReplied cs'))
             \<and> listeners cs' k = [])
       \<and> (\<forall>k. \<not> at_endpoint host port cs k \<longrightarrow>
             obj_get (notReplied cs') k = obj_get (notReplied cs) k
             \<and> (k \<in> set (obj_keys (notReplied cs')) \<longleftrightarrow> k \<in> set (obj_keys (notReplied cs)))
             \<and> listeners cs' k = listeners cs k)"
  by (simp add: executeAllServerSpecificErrorCallbacks_spec [OF assms] listeners_def
      obj_get_filter_keys [of "\<lambda>k. \<not> at_endpoint host port cs k"]
      obj_keys_filter_keys [of "\<lambda>k. \<not> at_endpoint host port cs k"])

lemma three_pending_keys: "obj_keys (notReplied three_pending) = [7, 8, 9]"
  by (simp add: three_pending_def obj_keys_def)

theorem endpoint_flush_completes_only_matching_witness:
  "list_all (\<lambda>k. obj_get (notReplied three_pending) k \<noteq> None) (obj_keys (notReplied three_pending))
   \<and> (case executeAllServerSpecificErrorCallbacks ''rets.example.org'' 6103 (JErr NoOpenConnections)
             three_pending of
        (fx, exn, cs') \<Rightarrow>
          exn = None
          \<and> fx = [Call 1 [JErr NoOpenConnections, Null]]
          \<and> obj_get (notReplied cs') 7 = None \<and> listeners cs' 7 = []
          \<and> obj_get (notReplied cs') 8 = obj_get (notReplied three_pending) 8 \<and> listeners cs' 8 = [2]
          \<and> obj_get (notReplied cs') 9 = obj_get (notReplied three_pending) 9 \<and> listeners cs' 9 = [3])"
proof -
  have h: "\<forall>k\<in>set (obj_keys (notReplied three_pending)). obj_get (notReplied three_pending) k \<noteq> None"
    by (simp add: three_pending_keys) (simp add: three_pending_def obj_get_def)
  have a7: "at_endpoint ''rets.example.org'' 6103 three_pending 7"
    by (simp add: at_endpoint_def three_pending_def obj_get_def example_connection_def)
  have a8: "\<not> at_endpoint ''rets.example.org'' 6103 three_pending 8"
    by (simp add: at_endpoint_def three_pending_def obj_get_def other_connection_def)
  have a9: "\<not> at_endpoint ''rets.example.org'' 6103 three_pending 9"
    by (simp add: at_endpoint_def three_pending_def obj_get_def)
  have l: "listeners three_pending 7 = [1]" "listeners three_pending 8 = [2]"
    "listeners three_pending 9 = [3]"
    by (simp_all add: listeners_def three_pending_def)
  show ?thesis
    using endpoint_flush_completes_only_matching [OF h, where host = "''rets.example.org''"
        and port = 6103 and err = "JErr NoOpenConnections"] h a7 a8 a9
    by (auto simp: three_pending_keys list_all_iff l split: prod.splits)
qed

section \<open>Properties of the broadcast\<close>

text \<open>
  C5. With \<^verbatim>\<open>rethrow_if_no_listeners\<close> set, an event is to be delivered to every handle
  that listens for it and the error escalated only when no handle did. The store holds one
  handle with a listener for \<^verbatim>\<open>error\<close>: the broadcast with the flag set delivers nothing
  and schedules the throw; the same broadcast without the flag delivers the event.
\<close>

theorem broadcast_with_rethrow_delivers_nothing:
  "db_listeners example_db ''error'' = [9]
   \<and> emitAcrossAllDbInstances None ''error'' (JErr (OtherError ''socket closed'')) JServer False True
        (base_of empty_store [example_db])
      = ([NextTickThrow (JErr (OtherError ''socket closed''))], base_of empty_store [example_db])
   \<and> DbStore_emit ''error'' (JErr (OtherError ''socket closed'')) JServer False None False [example_db]
      = [DbEmit (Some ''listings'', 1) ''error'' (JErr (OtherError ''socket closed'')) JServer]"
  by (simp add: emitAcrossAllDbInstances_def emit_rethrow base_of_def)
     (simp add: example_db_def DbStore_emit_def passes_filter_def ref_of_def is_nullish_def)

lemma emit_loop_spec:
  "emit_loop event message object filterDb dbs emitted =
     (map (\<lambda>d. DbEmit (ref_of d) event message (if is_nullish object then JDb (ref_of d) else object))
        (filter (\<lambda>d. db_listeners d event \<noteq> [] \<and> passes_filter filterDb d) dbs),
      emitted \<or> list_ex (\<lambda>d. db_listeners d event \<noteq> [] \<and> passes_filter filterDb d) dbs)"
  by (induction dbs arbitrary: emitted) auto

text \<open>
  X3. Without \<^verbatim>\<open>rethrow_if_no_listeners\<close>, \<^verbatim>\<open>DbStore.emit\<close> emits the event, in store order,
  on exactly the handles that have a listener for it and are not the excluded handle (same
  name and same tag), with the handle itself as payload when no object is given. With the
  flag set it emits on no handle and schedules the throw of the message.
\<close>

theorem broadcast_without_rethrow_reaches_listening_handles:
  "DbStore_emit event message object reset filterDb False dbs =
     map (\<lambda>d. DbEmit (ref_of d) event message (if is_nullish object then JDb (ref_of d) else object))
       (filter (\<lambda>d. db_listeners d event \<noteq> [] \<and> passes_filter filterDb d) dbs)
   \<and> DbStore_emit event message object reset filterDb True dbs = [NextTickThrow message]"
  by (simp add: DbStore_emit_def emit_loop_spec)

theorem broadcast_without_rethrow_reaches_listening_handles_witness:
  "DbStore_emit ''error'' (JErr NoOpenConnections) Null False None False
      [example_db, example_db\<lparr>databaseName := Some ''agents'', db_listeners := (\<lambda>_. [])\<rparr>]
    = [DbEmit (Some ''listings'', 1) ''error'' (JErr NoOpenConnections) (JDb (Some ''listings'', 1))]"
  using broadcast_without_rethrow_reaches_listening_handles [of "''error''" "JErr NoOpenConnections"
      Null False None "[example_db, example_db\<lparr>databaseName := Some ''agents'', db_listeners := (\<lambda>_. [])\<rparr>]"]
  by (simp add: example_db_def passes_filter_def ref_of_def is_nullish_def)


section \<open>Properties of the write dispatch\<close>

lemma getRequestId_assigned:
  "requestId (fst (snd (getRequestId c next_id))) = Some (fst (getRequestId c next_id))"
  by (auto simp: getRequestId_def split: option.splits)

lemma registerHandler_four_args:
  "registerHandler rid raw connection (ExhaustFn cb) None now cs =
     Inr (cs\<lparr>events := (events cs)(rid := events cs rid @ [cb]),
            notReplied := AList.update rid
              (Some \<lparr>info_start = now, info_raw = raw, info_connection = connection,
                     info_exhaust = False\<rparr>) (notReplied cs)\<rparr>)"
  by (simp add: registerHandler_def once_def)

lemma events_grow_differs:
  "cs\<lparr>events := (events cs)(rid := events cs rid @ [cb]), notReplied := nr\<rparr> \<noteq> cs"
proof
  assume "cs\<lparr>events := (events cs)(rid := events cs rid @ [cb]), notReplied := nr\<rparr> = cs"
  then have "events (cs\<lparr>events := (events cs)(rid := events cs rid @ [cb]), notReplied := nr\<rparr>) rid
      = events cs rid"
    by simp
  then show False by simp
qed

text \<open>
  C4. A write with a callback that reaches \<^verbatim>\<open>connection.write\<close> (the connection is live
  and compatible) changes the callback store if and only if the resolved write concern
  passes the test \<^verbatim>\<open>w > 0 || w == 'majority' || j\<close>. When it does, exactly one key is
  added to the pending keys: the request id of the getLastError command, under which the
  callback is installed with the metadata of this write; every other id, the one of the
  original write included when it differs, is left as it was, and the pair of both
  commands is written. A getLastError command without a request id gets the value of the
  counter, which no command that got its id earlier has. Otherwise the store is unchanged
  and the write alone is sent. The counter of request ids starts at 1 in
  \<^verbatim>\<open>base_command.js\<close>, hence \<^verbatim>\<open>0 < next_id\<close>.
\<close>

theorem write_registers_iff_acknowledged:
  assumes "(case opt_connection options of NoConn \<Rightarrow> writer | specified \<Rightarrow> specified) = LiveConn c"
    and "conn_isCompatible c"
    and "0 < next_id"
  shows "case executeInsertCommand string_gt_zero self writer lastError db_command options (Some cb)
            now next_id cs of
     (fx, exn, next_id', cs') \<Rightarrow>
       exn = None
       \<and> (cs' \<noteq> cs \<longleftrightarrow> requires_acknowledgement string_gt_zero (getWriteConcern self options))
       \<and> (requires_acknowledgement string_gt_zero (getWriteConcern self options) \<longrightarrow>
            set (obj_keys (notReplied cs'))
              = insert (fst (getRequestId lastError next_id)) (set (obj_keys (notReplied cs)))
            \<and> listeners cs' (fst (getRequestId lastError next_id))
              = listeners cs (fst (getRequestId lastError next_id)) @ [cb]
            \<and> obj_get (notReplied cs') (fst (getRequestId lastError next_id))
              = Some \<lparr>info_start = now,
                   info_raw = (case opt_raw options of Some r \<Rightarrow> r | None \<Rightarrow> db_raw self),
                   info_connection = Conn c, info_exhaust = False\<rparr>
            \<and> (\<forall>k. k \<noteq> fst (getRequestId lastError next_id) \<longrightarrow>
                  listeners cs' k = listeners cs k
                  \<and> obj_get (notReplied cs') k = obj_get (notReplied cs) k)
            \<and> fx = [ConnectionWrite c [db_command, fst (snd (getRequestId lastError next_id))]]
            \<and> requestId (fst (snd (getRequestId lastError next_id)))
                = Some (fst (getRequestId lastError next_id))
            \<and> (\<forall>oid. requestId lastError = None \<and> requestId db_command = Some oid
                  \<and> oid < next_id \<longrightarrow>
                  fst (getRequestId lastError next_id) = next_id
                  \<and> listeners cs' oid = listeners cs oid
                  \<and> obj_get (notReplied cs') oid = obj_get (notReplied cs) oid))
       \<and> (\<not> requires_acknowledgement string_gt_zero (getWriteConcern self options) \<longrightarrow>
            fx = [ConnectionWrite c [db_command]])"
proof (cases "requires_acknowledgement string_gt_zero (getWriteConcern self options)")
  case True
  obtain rid lastError' next_id' where g: "getRequestId lastError next_id = (rid, lastError', next_id')"
    by (cases "getRequestId lastError next_id")
  have a: "requestId lastError' = Some rid"
    using getRequestId_assigned [of lastError next_id] g by simp
  have f: "requestId lastError = None \<longrightarrow> rid = next_id"
    using g by (auto simp: getRequestId_def)
  show ?thesis
    using assms(1,2) True g a f
    by (auto simp: executeInsertCommand_def Let_def registerHandler_four_args events_grow_differs
        listeners_def obj_get_update_same obj_get_update_other obj_keys_update)
next
  case False
  then show ?thesis
    using assms(1,2) by (simp add: executeInsertCommand_def Let_def)
qed

theorem write_registers_iff_acknowledged_witness:
  "conn_isCompatible example_connection
   \<and> (case executeInsertCommand (\<lambda>s. False) example_db (LiveConn example_connection) lastError_command
             write_command example_options (Some 3) 100 42 empty_store of
        (fx, exn, next_id', cs') \<Rightarrow>
          exn = None \<and> set (obj_keys (notReplied cs')) = {42} \<and> listeners cs' 42 = [3]
          \<and> listeners cs' 41 = []
          \<and> fx = [ConnectionWrite example_connection
                    [write_command, \<lparr>cmd_body = 6, requestId = Some 42\<rparr>]])
   \<and> (case executeInsertCommand (\<lambda>s. False) example_db (LiveConn example_connection) lastError_command
             write_command (example_options\<lparr>opt_w := Some (WNum 0)\<rparr>) (Some 3) 100 42 empty_store of
        (fx, exn, next_id', cs') \<Rightarrow>
          exn = None \<and> cs' = empty_store \<and> fx = [ConnectionWrite example_connection [write_command]])"
proof -
  have c: "conn_isCompatible example_connection"
    by (simp add: example_connection_def)
  have h1: "(case opt_connection example_options of NoConn \<Rightarrow> LiveConn example_connection
             | specified \<Rightarrow> specified) = LiveConn example_connection"
    by (simp add: example_options_def)
  have h2: "(case opt_connection (example_options\<lparr>opt_w := Some (WNum 0)\<rparr>) of
               NoConn \<Rightarrow> LiveConn example_connection
             | specified \<Rightarrow> specified) = LiveConn example_connection"
    by (simp add: example_options_def)
  have r1: "requires_acknowledgement (\<lambda>s. False) (getWriteConcern example_db example_options)"
    by (simp add: requires_acknowledgement_def getWriteConcern_def example_db_def
        example_options_def w_gt_zero_def)
  have r2: "\<not> requires_acknowledgement (\<lambda>s. False)
      (getWriteConcern example_db (example_options\<lparr>opt_w := Some (WNum 0)\<rparr>))"
    by (simp add: requires_acknowledgement_def getWriteConcern_def setWriteConcernHash_def
        example_options_def w_gt_zero_def)
  have p: "0 < (42::nat)"
    by simp
  have g: "getRequestId lastError_command 42 = (42, \<lparr>cmd_body = 6, requestId = Some 42\<rparr>, 43)"
    by (simp add: getRequestId_def lastError_command_def)
  have k: "set (obj_keys (notReplied empty_store)) = {}" "listeners empty_store 42 = []"
    "listeners empty_store 41 = []"
    by (simp_all add: obj_keys_def empty_store_def listeners_def)
  show ?thesis
    using write_registers_iff_acknowledged [OF h1 c p, where string_gt_zero = "\<lambda>s. False"
        and self = example_db and lastError = lastError_command and db_command = write_command
        and cb = 3 and now = 100 and cs = empty_store]
      write_registers_iff_acknowledged [OF h2 c p, where string_gt_zero = "\<lambda>s. False"
        and self = example_db and lastError = lastError_command and db_command = write_command
        and cb = 3 and now = 100 and cs = empty_store]
      c r1 r2 k
    by (auto simp: g split: prod.splits)
qed

section \<open>Properties of the Db handle\<close>

lemma DbStore_fetch_Some:
  "DbStore_fetch name dbs = Some d \<Longrightarrow> d \<in> set dbs \<and> databaseName d = name"
  by (induction dbs) (auto split: if_splits)

lemma DbStore_fetch_None:
  "DbStore_fetch name dbs = None \<longleftrightarrow> \<not> list_ex (\<lambda>d. databaseName d = name) dbs"
  by (induction dbs) auto

lemma Db_new_unnamed:
  "Db_new serverConfig options is_used bson_loads now = Inr (h, sc') \<Longrightarrow> databaseName h = None"
  by (auto simp: Db_new_def Let_def split: ctor_arg.splits if_splits)

lemma Db_new_name_raises: "isl (Db_new (name_arg dbName) options is_used bson_loads now)"
  by (cases dbName) (auto simp: Db_new_def Let_def)

lemma Db_new_string:
  "Db_new (ArgString s) options is_used bson_loads now
     = Inl (if bson_loads then TypeError else BsonNotCompiled)"
  by (simp add: Db_new_def Let_def)

lemma Db_db_fetched:
  "DbStore_fetch (name_value dbName) (sc_dbStore sc) = Some d \<Longrightarrow>
   Db_db dbName server_as_options bson_loads now sc = Inr (d, sc)"
  by (simp add: Db_db_def)

text \<open>
  C9. A handle is to be constructed for a name that no handle of the store has, and to be
  returned from the store afterwards. The server holds the one handle that
  \<^verbatim>\<open>new Db(server, null)\<close> built, which has no name. A request for the name
  \<^verbatim>\<open>listings\<close> finds no handle of that name and calls the constructor with the name in
  the place of the server configuration: the call raises and no handle is built, and the
  same request raises again, since the store is as it was.
\<close>

theorem db_for_name_raises:
  "Db_new (ArgServer fresh_server) None False True 100 = Inr (first_handle, opened_server)
   \<and> DbStore_fetch (Some ''listings'') (sc_dbStore opened_server) = None
   \<and> Db_db (DbName ''listings'') no_options True 200 opened_server = Inl TypeError
   \<and> Db_db (DbName ''listings'') no_options True 300 opened_server = Inl TypeError"
  by (simp add: Db_new_def Db_db_def Let_def fresh_server_def opened_server_def first_handle_def
      no_options_def DbStore_add_def)

text \<open>
  X4. The constructor gives no handle a name, so a store that it fills holds unnamed
  handles only, and stays so. On such a store \<^verbatim>\<open>Db.prototype.db\<close> raises for every string
  as name, with any options and at any time, and gives back the first handle of the store
  for null or undefined as name.
\<close>

theorem db_store_holds_unnamed_handles:
  "(\<forall>d \<in> set (sc_dbStore sc). databaseName d = None) \<longrightarrow>
     (\<forall>h sc'. Db_new (ArgServer sc) options is_used bson_loads now = Inr (h, sc') \<longrightarrow>
        databaseName h = None \<and> (\<forall>d \<in> set (sc_dbStore sc'). databaseName d = None))
     \<and> Db_db (DbName name) server_as_options bson_loads now sc
         = Inl (if bson_loads then TypeError else BsonNotCompiled)
     \<and> (\<forall>d ds. sc_dbStore sc = d # ds \<longrightarrow>
          Db_db DbNameUndefined server_as_options bson_loads now sc = Inr (d, sc)
          \<and> Db_db DbNameNull server_as_options bson_loads now sc = Inr (d, sc))"
proof
  assume unnamed: "\<forall>d \<in> set (sc_dbStore sc). databaseName d = None"
  have 1: "\<forall>h sc'. Db_new (ArgServer sc) options is_used bson_loads now = Inr (h, sc') \<longrightarrow>
        databaseName h = None \<and> (\<forall>d \<in> set (sc_dbStore sc'). databaseName d = None)"
    using unnamed
    by (auto simp: Db_new_def Let_def DbStore_add_def split: if_splits)
  have "\<not> list_ex (\<lambda>d. databaseName d = Some name) (sc_dbStore sc)"
    using unnamed by (auto simp: list_ex_iff)
  then have "DbStore_fetch (Some name) (sc_dbStore sc) = None"
    by (simp add: DbStore_fetch_None)
  then have 2: "Db_db (DbName name) server_as_options bson_loads now sc
         = Inl (if bson_loads then TypeError else BsonNotCompiled)"
    by (simp add: Db_db_def Db_new_string)
  have 3: "\<forall>d ds. sc_dbStore sc = d # ds \<longrightarrow>
          Db_db DbNameUndefined server_as_options bson_loads now sc = Inr (d, sc)
          \<and> Db_db DbNameNull server_as_options bson_loads now sc = Inr (d, sc)"
    using unnamed by (auto simp: Db_db_def)
  from 1 2 3 show "(\<forall>h sc'. Db_new (ArgServer sc) options is_used bson_loads now = Inr (h, sc') \<longrightarrow>
        databaseName h = None \<and> (\<forall>d \<in> set (sc_dbStore sc'). databaseName d = None))
     \<and> Db_db (DbName name) server_as_options bson_loads now sc
         = Inl (if bson_loads then TypeError else BsonNotCompiled)
     \<and> (\<forall>d ds. sc_dbStore sc = d # ds \<longrightarrow>
          Db_db DbNameUndefined server_as_options bson_loads now sc = Inr (d, sc)
          \<and> Db_db DbNameNull server_as_options bson_loads now sc = Inr (d, sc))"
    by blast
qed

theorem db_store_holds_unnamed_handles_witness:
  "list_all (\<lambda>d. databaseName d = None) (sc_dbStore opened_server)
   \<and> Db_db (DbName ''agents'') no_options True 200 opened_server = Inl TypeError
   \<and> Db_db DbNameUndefined no_options True 200 opened_server = Inr (first_handle, opened_server)"
proof -
  have u: "\<forall>d \<in> set (sc_dbStore opened_server). databaseName d = None"
    by (simp add: opened_server_def first_handle_def)
  have s: "sc_dbStore opened_server = first_handle # []"
    by (simp add: opened_server_def)
  show ?thesis
    using db_store_holds_unnamed_handles [where sc = opened_server and name = "''agents''"
        and server_as_options = no_options and bson_loads = True and now = 200] u s
    by (simp add: list_all_iff)
qed

text \<open>
  C10. With an options object whose \<^verbatim>\<open>authMechanism\<close> is absent (or the empty string) or one
  of BASIC, OAUTH and DIGEST, and likewise when the callback stands in the place of the
  options, \<^verbatim>\<open>authenticate\<close> calls the callback with \<^verbatim>\<open>(null, true)\<close> and does nothing else.
  With any other mechanism it calls the callback with the error alone. On no input does it
  send a command or hand one to a dispatch function.
\<close>

theorem authenticate_calls_back_without_dispatch:
  "(authMechanism \<in> {None, Some '''', Some ''BASIC'', Some ''OAUTH'', Some ''DIGEST''} \<longrightarrow>
      authenticate username password (AuthOptions authMechanism) (Some cb)
        = ([Call cb [Null, JBool True]], None))
   \<and> authenticate username password (AuthOptionsFn cb) callback = ([Call cb [Null, JBool True]], None)
   \<and> (authMechanism \<notin> {None, Some '''', Some ''BASIC'', Some ''OAUTH'', Some ''DIGEST''} \<longrightarrow>
      authenticate username password (AuthOptions authMechanism) (Some cb)
        = ([Call cb [JErr UnsupportedAuthMechanism]], None))
   \<and> (\<forall>e \<in> set (fst (authenticate username password options callback)). \<not> is_dispatch e)"
proof -
  have "\<forall>e \<in> set (fst (authenticate username password options callback)). \<not> is_dispatch e"
    by (cases options; cases callback) (auto simp: authenticate_def call_callback_def)
  then show ?thesis
    by (auto simp: authenticate_def call_callback_def)
qed

theorem authenticate_calls_back_without_dispatch_witness:
  "authenticate ''agent'' ''secret'' (AuthOptions (Some ''OAUTH'')) (Some 4) = ([Call 4 [Null, JBool True]], None)
   \<and> authenticate ''agent'' ''secret'' (AuthOptions None) (Some 4) = ([Call 4 [Null, JBool True]], None)
   \<and> authenticate ''agent'' ''secret'' (AuthOptions (Some ''KERBEROS'')) (Some 4)
       = ([Call 4 [JErr UnsupportedAuthMechanism]], None)
   \<and> list_all (\<lambda>e. \<not> is_dispatch e)
       (fst (authenticate ''agent'' ''secret'' (AuthOptions (Some ''OAUTH'')) (Some 4)))"
  using authenticate_calls_back_without_dispatch [of "Some ''OAUTH''" "''agent''" "''secret''" 4
      "Some 4" "AuthOptions (Some ''OAUTH'')"]
    authenticate_calls_back_without_dispatch [of None "''agent''" "''secret''" 4
      "Some 4" "AuthOptions None"]
    authenticate_calls_back_without_dispatch [of "Some ''KERBEROS''" "''agent''" "''secret''" 4
      "Some 4" "AuthOptions (Some ''KERBEROS'')"]
  by (simp add: list_all_iff)

end
